theory Spec2Isabelle
  imports Complex_Main "HOL-Library.Word" "HOL-Library.Sublist" "HOL-Library.List_Lexorder"
begin

section \<open>JavaScript strings\<close>

text \<open>
  A JavaScript string is a sequence of UTF-16 code units.  The controller
  \<^verbatim>\<open>src/server/controllers/ai.js\<close> inspects strings one code unit at a
  time (\<^verbatim>\<open>trim\<close>, \<^verbatim>\<open>split\<close>, \<^verbatim>\<open>startsWith\<close>, \<^verbatim>\<open>includes\<close>, regular
  expressions without the \<^verbatim>\<open>u\<close> flag), so a string is a list of 16-bit words.
\<close>

type_synonym code_unit = "16 word"
type_synonym jstring = "code_unit list"

definition js :: "string \<Rightarrow> jstring" where
  \<comment> \<open>a literal of the source, written with Isabelle's 8-bit characters\<close>
  "js s = map of_char s"

definition isLineTerminator :: "code_unit \<Rightarrow> bool" where
  \<comment> \<open>ECMAScript LineTerminator: LF, CR, LS, PS; the characters \<^verbatim>\<open>.\<close> refuses\<close>
  "isLineTerminator c \<longleftrightarrow> c = 0x0A \<or> c = 0x0D \<or> c = 0x2028 \<or> c = 0x2029"

definition isWhiteSpace :: "code_unit \<Rightarrow> bool" where
  \<comment> \<open>ECMAScript WhiteSpace: TAB, VT, FF, SP, NBSP, ZWNBSP and category Zs\<close>
  "isWhiteSpace c \<longleftrightarrow>
     c = 0x09 \<or> c = 0x0B \<or> c = 0x0C \<or> c = 0x20 \<or> c = 0xA0 \<or> c = 0x1680 \<or>
     (0x2000 \<le> c \<and> c \<le> 0x200A) \<or> c = 0x202F \<or> c = 0x205F \<or> c = 0x3000 \<or>
     c = 0xFEFF"

definition isSpace :: "code_unit \<Rightarrow> bool" where
  \<comment> \<open>what \<^verbatim>\<open>\s\<close> matches and what \<^verbatim>\<open>String.prototype.trim\<close> removes\<close>
  "isSpace c \<longleftrightarrow> isWhiteSpace c \<or> isLineTerminator c"

definition trim :: "jstring \<Rightarrow> jstring" where
  "trim s = rev (dropWhile isSpace (rev (dropWhile isSpace s)))"

definition lowerUnit :: "code_unit \<Rightarrow> code_unit" where
  "lowerUnit c = (if 0x41 \<le> c \<and> c \<le> 0x5A then c + 0x20 else c)"

definition toLowerCase :: "jstring \<Rightarrow> jstring" where
  \<comment> \<open>\<^verbatim>\<open>String.prototype.toLowerCase\<close> on the letters A to Z.  The source only
      compares the result's first code units with the ASCII literals
      \<^verbatim>\<open>"user:"\<close> and \<^verbatim>\<open>"response:"\<close>; no code unit outside A to Z has a
      lower-case form that starts with one of their letters, so the Unicode
      mappings of other letters cannot change any such comparison.\<close>
  "toLowerCase s = map lowerUnit s"

definition startsWith :: "jstring \<Rightarrow> jstring \<Rightarrow> bool" where
  "startsWith s p \<longleftrightarrow> prefix p s"

fun includes_str :: "jstring \<Rightarrow> jstring \<Rightarrow> bool" where
  "includes_str [] sub = (sub = [])"
| "includes_str (c # cs) sub = (prefix sub (c # cs) \<or> includes_str cs sub)"

fun split_nl :: "jstring \<Rightarrow> jstring list" where
  \<comment> \<open>\<^verbatim>\<open>s.split("\n")\<close>: the empty string gives one empty piece\<close>
  "split_nl [] = [[]]"
| "split_nl (c # cs) =
     (if c = 0x0A then [] # split_nl cs
      else (case split_nl cs of [] \<Rightarrow> [[c]] | l # ls \<Rightarrow> (c # l) # ls))"

section \<open>Response Normalizer: \<^verbatim>\<open>parseAIResponse\<close>\<close>

definition fence :: jstring where
  "fence = [0x60, 0x60, 0x60]"

definition after_lang :: "jstring \<Rightarrow> jstring" where
  \<comment> \<open>\<^verbatim>\<open>(?:bash|sh|shell)?\<close>: greedy, alternatives tried in the order written;
      what follows can match the empty string, so the first alternative that
      matches is kept\<close>
  "after_lang s =
     (if prefix (js ''bash'') s then drop 4 s
      else if prefix (js ''sh'') s then drop 2 s
      else if prefix (js ''shell'') s then drop 5 s
      else s)"

definition after_opt_nl :: "jstring \<Rightarrow> jstring" where
  \<comment> \<open>\<^verbatim>\<open>\n?\<close>\<close>
  "after_opt_nl s = (case s of [] \<Rightarrow> [] | c # cs \<Rightarrow> if c = 0x0A then cs else c # cs)"

function strip_lang_fences :: "jstring \<Rightarrow> jstring" where
  \<comment> \<open>\<^verbatim>\<open>.replace(/```(?:bash|sh|shell)?\n?/g, "")\<close>: matches are found left to
      right, each search resuming where the last match ended\<close>
  "strip_lang_fences [] = []"
| "strip_lang_fences (c # cs) =
     (if prefix fence (c # cs)
      then strip_lang_fences (after_opt_nl (after_lang (drop 3 (c # cs))))
      else c # strip_lang_fences cs)"
  by pat_completeness auto
termination
proof (relation "measure length")
  show "wf (measure length)" by simp
next
  fix c :: code_unit and cs :: jstring
  assume "prefix fence (c # cs)"
  have nl: "length (after_opt_nl s) \<le> length s" for s
    by (cases s) (simp_all add: after_opt_nl_def)
  have lang: "length (after_lang s) \<le> length s" for s
    by (simp add: after_lang_def)
  have "length (after_opt_nl (after_lang (drop 3 (c # cs)))) \<le> length (drop 3 (c # cs))"
    using nl lang order_trans by blast
  then show "(after_opt_nl (after_lang (drop 3 (c # cs))), c # cs) \<in> measure length"
    by simp
qed simp

function strip_fences :: "jstring \<Rightarrow> jstring" where
  \<comment> \<open>\<^verbatim>\<open>.replace(/```/g, "")\<close>\<close>
  "strip_fences [] = []"
| "strip_fences (c # cs) =
     (if prefix fence (c # cs) then strip_fences (drop 3 (c # cs))
      else c # strip_fences cs)"
  by pat_completeness auto
termination
  by (relation "measure length") (auto simp: fence_def)

definition upperUnit :: "code_unit \<Rightarrow> code_unit" where
  \<comment> \<open>Canonicalize of a regular expression with the \<^verbatim>\<open>i\<close> flag and without
      \<^verbatim>\<open>u\<close>: the upper-case form, except that a code unit of 128 or more is
      never mapped below 128; so the ASCII pattern \<^verbatim>\<open>Response:\<close> is matched
      by its ASCII case variants only\<close>
  "upperUnit c = (if 0x61 \<le> c \<and> c \<le> 0x7A then c - 0x20 else c)"

fun match_literal_i :: "jstring \<Rightarrow> jstring \<Rightarrow> jstring option" where
  \<comment> \<open>the literal matched case-insensitively at the start; the rest of the input\<close>
  "match_literal_i [] s = Some s"
| "match_literal_i (p # ps) [] = None"
| "match_literal_i (p # ps) (c # cs) =
     (if upperUnit p = upperUnit c then match_literal_i ps cs else None)"

fun capture_line :: "jstring \<Rightarrow> jstring option" where
  \<comment> \<open>\<^verbatim>\<open>(.+?)(?:\n|$)\<close> at the start of the input: one character that is not a
      line terminator, then as few more as needed until a line feed or the end
      of the input follows\<close>
  "capture_line [] = None"
| "capture_line (c # cs) =
     (if isLineTerminator c then None
      else if cs = [] \<or> hd cs = 0x0A then Some [c]
      else map_option ((#) c) (capture_line cs))"

fun spaces_then_capture :: "jstring \<Rightarrow> jstring option" where
  \<comment> \<open>\<^verbatim>\<open>\s*(.+?)(?:\n|$)\<close>: the greedy \<^verbatim>\<open>\s*\<close> takes the longest run first and
      gives characters back one at a time while the rest fails\<close>
  "spaces_then_capture [] = capture_line []"
| "spaces_then_capture (c # cs) =
     (if isSpace c
      then (case spaces_then_capture cs of
              Some cap \<Rightarrow> Some cap
            | None \<Rightarrow> capture_line (c # cs))
      else capture_line (c # cs))"

fun response_match :: "jstring \<Rightarrow> jstring option" where
  \<comment> \<open>\<^verbatim>\<open>clean.match(/Response:\s*(.+?)(?:\n|$)/i)\<close>: group 1 of the leftmost
      match, \<open>None\<close> when the expression matches nowhere\<close>
  "response_match [] = None"
| "response_match (c # cs) =
     (case match_literal_i (js ''Response:'') (c # cs) of
        None \<Rightarrow> response_match cs
      | Some rest \<Rightarrow>
          (case spaces_then_capture rest of
             Some cap \<Rightarrow> Some cap
           | None \<Rightarrow> response_match cs))"

definition isLineBreak :: "code_unit \<Rightarrow> bool" where
  \<comment> \<open>the class \<^verbatim>\<open>[\r\n]\<close>\<close>
  "isLineBreak c \<longleftrightarrow> c = 0x0D \<or> c = 0x0A"

definition strip_trailing_breaks :: "jstring \<Rightarrow> jstring" where
  \<comment> \<open>\<^verbatim>\<open>.replace(/[\r\n]+$/, "")\<close>: without the \<^verbatim>\<open>m\<close> flag \<^verbatim>\<open>$\<close> is the end of
      the input, so the match is the whole run of CR and LF that ends the string\<close>
  "strip_trailing_breaks s = rev (dropWhile isLineBreak (rev s))"

definition no_command :: jstring where
  \<comment> \<open>\<^verbatim>\<open>"echo 'No command generated'"\<close>; 0x27 is the single quote\<close>
  "no_command = js ''echo '' @ [0x27] @ js ''No command generated'' @ [0x27]"

definition not_generated :: jstring where
  \<comment> \<open>\<^verbatim>\<open>"echo 'Command not properly generated'"\<close>\<close>
  "not_generated = js ''echo '' @ [0x27] @ js ''Command not properly generated'' @ [0x27]"

definition role_labelled :: "jstring \<Rightarrow> bool" where
  "role_labelled l \<longleftrightarrow>
     startsWith (toLowerCase l) (js ''user:'') \<or> startsWith (toLowerCase l) (js ''response:'')"

definition parseAIResponse :: "jstring option \<Rightarrow> jstring" where
  \<comment> \<open>\<open>None\<close> is \<^verbatim>\<open>undefined\<close> (or \<^verbatim>\<open>null\<close>); the empty string is falsy too\<close>
  "parseAIResponse response =
     (case response of
        None \<Rightarrow> no_command
      | Some r \<Rightarrow>
          if r = [] then no_command
          else
            let clean = strip_fences (strip_lang_fences r) in
            (case response_match clean of
               Some cap \<Rightarrow> strip_trailing_breaks (trim cap)
             | None \<Rightarrow>
                 if startsWith (toLowerCase clean) (js ''user:'') then not_generated
                 else
                   let lines = filter (\<lambda>l. l \<noteq> []) (map trim (split_nl clean));
                       cmd = (if length lines > 1
                              then find (\<lambda>l. \<not> role_labelled l) lines
                              else None);
                       otherwise =
                         (if startsWith (toLowerCase clean) (js ''response:'')
                          then not_generated
                          else
                            let out = strip_trailing_breaks (trim clean)
                            in if out = [] then no_command else out)
                   in (case cmd of
                         Some l \<Rightarrow>
                           if l \<noteq> [] then strip_trailing_breaks (trim l) else otherwise
                       | None \<Rightarrow> otherwise)))"

section \<open>Stored configuration\<close>

text \<open>
  The one row of the settings store.  A column that holds \<^verbatim>\<open>null\<close> is \<open>None\<close>.
\<close>

record settings =
  settings_id :: nat
  enabled :: bool
  provider :: "jstring option"
  model :: "jstring option"
  apiKey :: "jstring option"
  apiUrl :: "jstring option"

definition truthy :: "jstring option \<Rightarrow> bool" where
  \<comment> \<open>JavaScript truthiness of a string or \<^verbatim>\<open>null\<close>/\<^verbatim>\<open>undefined\<close>: the empty string
      is falsy\<close>
  "truthy v = (case v of None \<Rightarrow> False | Some s \<Rightarrow> s \<noteq> [])"

datatype api_error = ApiError (code: nat) (message: jstring)

section \<open>Provider Registry and Configuration Validator\<close>

type_synonym header = "jstring \<times> jstring"

record provider_config =
  baseUrl :: "jstring option"
  headers :: "header list"
  requiresApiKey :: bool
  requiresApiUrl :: bool

definition OPENAI_BASE_URL :: jstring where
  "OPENAI_BASE_URL = js ''https://api.openai.com/v1''"

definition DEFAULT_OLLAMA_URL :: jstring where
  "DEFAULT_OLLAMA_URL = js ''http://localhost:11434''"

definition getProviderConfig ::
  "(jstring option \<Rightarrow> header list) \<Rightarrow> (jstring option \<Rightarrow> jstring option) \<Rightarrow>
   settings \<Rightarrow> provider_config option" where
  \<comment> \<open>The helpers \<^verbatim>\<open>authHeaders\<close> and \<^verbatim>\<open>normalizeUrl\<close> are called by the source but
      defined nowhere in it: they are the first two arguments.\<close>
  "getProviderConfig authHeaders normalizeUrl s =
     (if provider s = Some (js ''openai'') then
        Some \<lparr> baseUrl = Some OPENAI_BASE_URL, headers = authHeaders (apiKey s),
               requiresApiKey = True, requiresApiUrl = False \<rparr>
      else if provider s = Some (js ''openai_compatible'') then
        Some \<lparr> baseUrl = normalizeUrl (apiUrl s), headers = authHeaders (apiKey s),
               requiresApiKey = True, requiresApiUrl = True \<rparr>
      else if provider s = Some (js ''ollama'') then
        Some \<lparr> baseUrl = (if truthy (normalizeUrl (apiUrl s)) then normalizeUrl (apiUrl s)
                          else Some DEFAULT_OLLAMA_URL),
               headers = [(js ''Content-Type'', js ''application/json'')],
               requiresApiKey = False, requiresApiUrl = False \<rparr>
      else None)"

definition validateProviderConfig :: "settings \<Rightarrow> provider_config option \<Rightarrow> api_error option" where
  "validateProviderConfig s config =
     (case config of
        None \<Rightarrow> Some (ApiError 400 (js ''Unsupported provider''))
      | Some c \<Rightarrow>
          if requiresApiKey c \<and> \<not> truthy (apiKey s) then
            (let name = (if provider s = Some (js ''openai'') then js ''OpenAI''
                         else js ''OpenAI Compatible'')
             in Some (ApiError 400 (name @ js '' API key not configured'')))
          else if requiresApiUrl c \<and> \<not> truthy (apiUrl s) then
            Some (ApiError 400 (js ''OpenAI Compatible API URL not configured''))
          else None)"

definition credential_missing :: "api_error option \<Rightarrow> bool" where
  \<comment> \<open>the two credential-missing errors the validator can return\<close>
  "credential_missing r \<longleftrightarrow>
     r = Some (ApiError 400 (js ''OpenAI API key not configured'')) \<or>
     r = Some (ApiError 400 (js ''OpenAI Compatible API key not configured''))"

section \<open>Partial update: \<^verbatim>\<open>updateAISettings\<close>\<close>

text \<open>
  A field of the update request that is \<^verbatim>\<open>undefined\<close> is \<open>None\<close>; \<open>Some None\<close> is an
  explicit \<^verbatim>\<open>null\<close>.
\<close>

record update_data =
  upd_enabled :: "bool option"
  upd_provider :: "jstring option option"
  upd_model :: "jstring option option"
  upd_apiKey :: "jstring option option"
  upd_apiUrl :: "jstring option option"

definition updatePayload :: "update_data \<Rightarrow> update_data" where
  \<comment> \<open>lines 81 to 86: the payload holds the fields that are not \<^verbatim>\<open>undefined\<close>, and
      an empty \<^verbatim>\<open>apiKey\<close> becomes \<^verbatim>\<open>null\<close>\<close>
  "updatePayload u =
     \<lparr> upd_enabled = upd_enabled u,
       upd_provider = upd_provider u,
       upd_model = upd_model u,
       upd_apiKey = (case upd_apiKey u of
                       None \<Rightarrow> None
                     | Some k \<Rightarrow> Some (if k = Some [] then None else k)),
       upd_apiUrl = upd_apiUrl u \<rparr>"

definition set_fields :: "update_data \<Rightarrow> settings \<Rightarrow> settings" where
  \<comment> \<open>the store's \<^verbatim>\<open>update\<close> on one row: each column named in the payload is set\<close>
  "set_fields p s =
     s \<lparr> enabled := (case upd_enabled p of None \<Rightarrow> enabled s | Some v \<Rightarrow> v),
         provider := (case upd_provider p of None \<Rightarrow> provider s | Some v \<Rightarrow> v),
         model := (case upd_model p of None \<Rightarrow> model s | Some v \<Rightarrow> v),
         apiKey := (case upd_apiKey p of None \<Rightarrow> apiKey s | Some v \<Rightarrow> v),
         apiUrl := (case upd_apiUrl p of None \<Rightarrow> apiUrl s | Some v \<Rightarrow> v) \<rparr>"

definition AISettings_update :: "update_data \<Rightarrow> nat \<Rightarrow> settings option \<Rightarrow> settings option" where
  \<comment> \<open>\<^verbatim>\<open>AISettings.update(payload, { where: { id } })\<close> on the store's one row\<close>
  "AISettings_update p i store =
     (case store of
        None \<Rightarrow> None
      | Some s \<Rightarrow> if settings_id s = i then Some (set_fields p s) else Some s)"

definition getOrCreateSettings :: "settings option \<Rightarrow> settings option \<times> settings" where
  \<comment> \<open>Modelled from the spec: \<^verbatim>\<open>getOrCreateSettings\<close> is called by the source but is not
      in it.  The spec: exactly one instance exists, "created lazily on first access
      with all fields unset/disabled".  Gives the store after the call and the row.\<close>
  "getOrCreateSettings store =
     (case store of
        Some s \<Rightarrow> (Some s, s)
      | None \<Rightarrow>
          (let s = \<lparr> settings_id = 1, enabled = False, provider = None, model = None,
                     apiKey = None, apiUrl = None \<rparr>
           in (Some s, s)))"

definition updateAISettings ::
  "(settings option \<Rightarrow> 'r) \<Rightarrow> settings option \<Rightarrow> update_data \<Rightarrow> settings option \<times> 'r" where
  \<comment> \<open>The store before the call is the second argument, the store after it the first
      component of the result.  \<^verbatim>\<open>sanitizeSettingsResponse\<close> is not in the source: it
      is the first argument.\<close>
  "updateAISettings sanitizeSettingsResponse store updateData =
     (let (store1, s) = getOrCreateSettings store;
          payload = updatePayload updateData;
          settingsId = settings_id s;
          store2 = AISettings_update payload settingsId store1;
          updatedSettings = store2
      in (store2, sanitizeSettingsResponse updatedSettings))"

section \<open>The HTTP collaborator\<close>

text \<open>
  \<^verbatim>\<open>fetch\<close> is a parameter of every operation: a function from the request to what
  the awaited call does.  It either rejects (a thrown error with its message) or
  gives a response with a status and a body; \<^verbatim>\<open>response.json()\<close> either rejects or
  gives the parsed body.  The parsed body is a JSON object seen through the fields
  the controller reads, each of them optional.
\<close>

datatype js_error = Error (error_message: jstring)

definition type_error :: "jstring \<Rightarrow> js_error" where
  \<comment> \<open>the TypeError Node raises when a property is read off \<^verbatim>\<open>undefined\<close>\<close>
  "type_error prop =
     Error (js ''Cannot read properties of undefined (reading '' @ [0x27] @ prop @ [0x27] @ js '')'')"

datatype model_entry = ModelEntry (entry_id: "jstring option") (entry_name: "jstring option")

record json_data =
  data_field :: "model_entry list option"
  models_field :: "model_entry list option"
  choices_field :: "jstring option list option"
  message_content :: "jstring option"
  error_field_message :: "jstring option"

record chat_message =
  role :: jstring
  content :: jstring

datatype request_body =
    ChatCompletions (cc_model: "jstring option") (cc_messages: "chat_message list")
      (max_tokens: nat) (cc_temperature: rat) (cc_stop: "jstring list")
  | OllamaChat (oc_model: "jstring option") (oc_messages: "chat_message list")
      (stream: bool) (oc_temperature: rat) (num_predict: nat) (oc_stop: "jstring list")

record request =
  req_url :: jstring
  req_method :: "jstring option"
  req_headers :: "header list"
  req_body :: "request_body option"

record response =
  status :: nat
  json :: "js_error + json_data"

datatype fetch_outcome = Rejects js_error | Responds response

definition ok :: "response \<Rightarrow> bool" where
  "ok r \<longleftrightarrow> 200 \<le> status r \<and> status r \<le> 299"

function decimal :: "nat \<Rightarrow> jstring" where
  \<comment> \<open>a number inside a template literal\<close>
  "decimal n = (if n < 10 then [of_nat (48 + n)]
                else decimal (n div 10) @ [of_nat (48 + n mod 10)])"
  by pat_completeness auto
termination
  by (relation "measure (\<lambda>n. n)") auto

definition interpolate :: "jstring option \<Rightarrow> jstring" where
  \<comment> \<open>\<^verbatim>\<open>${value}\<close> in a template literal, for a string or \<^verbatim>\<open>null\<close>\<close>
  "interpolate v = (case v of None \<Rightarrow> js ''null'' | Some s \<Rightarrow> s)"

definition bearer_headers :: "jstring option \<Rightarrow> header list" where
  \<comment> \<open>the header object written inline at lines 107, 148, 196 and 230; the key is
      truthy wherever it is built\<close>
  "bearer_headers key =
     [(js ''Authorization'', js ''Bearer '' @ interpolate key),
      (js ''Content-Type'', js ''application/json'')]"

definition strip_trailing_slashes :: "jstring \<Rightarrow> jstring" where
  \<comment> \<open>\<^verbatim>\<open>.replace(/\/+$/, "")\<close>\<close>
  "strip_trailing_slashes s = rev (dropWhile (\<lambda>c. c = 0x2F) (rev s))"

definition or_default :: "jstring option \<Rightarrow> jstring \<Rightarrow> jstring" where
  \<comment> \<open>\<^verbatim>\<open>value || fallback\<close> on a string or \<^verbatim>\<open>null\<close>\<close>
  "or_default v d = (case v of None \<Rightarrow> d | Some s \<Rightarrow> if s = [] then d else s)"

section \<open>Connectivity Prober: \<^verbatim>\<open>testAIConnection\<close>\<close>

datatype probe_result = ProbeSuccess jstring | ProbeError api_error

definition quoted_model :: "settings \<Rightarrow> jstring" where
  \<comment> \<open>\<^verbatim>\<open>"${settings.model}"\<close> with its double quotes (0x22)\<close>
  "quoted_model s = [0x22] @ interpolate (model s) @ [0x22]"

definition openai_probe_request :: "settings \<Rightarrow> request" where
  "openai_probe_request s =
     \<lparr> req_url = js ''https://api.openai.com/v1/models'', req_method = None,
       req_headers = bearer_headers (apiKey s), req_body = None \<rparr>"

definition ollama_probe_request :: "settings \<Rightarrow> request" where
  "ollama_probe_request s =
     \<lparr> req_url = strip_trailing_slashes (or_default (apiUrl s) (js ''http://localhost:11434''))
                 @ js ''/api/tags'',
       req_method = Some (js ''GET''),
       req_headers = [(js ''Content-Type'', js ''application/json'')], req_body = None \<rparr>"

definition compatible_probe_request :: "settings \<Rightarrow> request" where
  "compatible_probe_request s =
     \<lparr> req_url = interpolate (apiUrl s) @ js ''/models'', req_method = None,
       req_headers = bearer_headers (apiKey s), req_body = None \<rparr>"

definition id_listed :: "settings \<Rightarrow> json_data \<Rightarrow> js_error + bool" where
  \<comment> \<open>\<^verbatim>\<open>data.data.some(model => model.id === settings.model)\<close>\<close>
  "id_listed s d =
     (case data_field d of
        None \<Rightarrow> Inl (type_error (js ''some''))
      | Some entries \<Rightarrow> Inr (\<exists>m \<in> set entries. entry_id m \<noteq> None \<and> entry_id m = model s))"

definition name_listed :: "settings \<Rightarrow> json_data \<Rightarrow> bool" where
  \<comment> \<open>\<^verbatim>\<open>data.models ? data.models.map(model => model.name) : []\<close>, then
      \<^verbatim>\<open>models.includes(settings.model)\<close>\<close>
  "name_listed s d =
     (let models = (case models_field d of None \<Rightarrow> [] | Some entries \<Rightarrow> map entry_name entries)
      in model s \<noteq> None \<and> model s \<in> set models)"

definition probe_try :: "settings \<Rightarrow> (request \<Rightarrow> fetch_outcome) \<Rightarrow> js_error + probe_result" where
  \<comment> \<open>the \<^verbatim>\<open>try\<close> block, lines 102 to 165; \<open>Inl\<close> is an exception thrown inside it\<close>
  "probe_try s fetch =
     (if provider s = Some (js ''openai'') then
        if \<not> truthy (apiKey s)
        then Inr (ProbeError (ApiError 400 (js ''OpenAI API key not configured'')))
        else
          (case fetch (openai_probe_request s) of
             Rejects e \<Rightarrow> Inl e
           | Responds r \<Rightarrow>
               if \<not> ok r
               then Inr (ProbeError (ApiError 500 (js ''OpenAI API error: '' @ decimal (status r))))
               else
                 (case json r of
                    Inl e \<Rightarrow> Inl e
                  | Inr d \<Rightarrow>
                      (case id_listed s d of
                         Inl e \<Rightarrow> Inl e
                       | Inr modelExists \<Rightarrow>
                           if \<not> modelExists
                           then Inr (ProbeError (ApiError 400
                                  (js ''Configured model '' @ quoted_model s
                                   @ js '' not found in your OpenAI account'')))
                           else Inr (ProbeSuccess (js ''Connection test successful'')))))
      else if provider s = Some (js ''ollama'') then
        (case fetch (ollama_probe_request s) of
           Rejects e \<Rightarrow> Inl e
         | Responds r \<Rightarrow>
             if \<not> ok r
             then Inr (ProbeError (ApiError 500 (js ''Ollama API error: '' @ decimal (status r))))
             else
               (case json r of
                  Inl e \<Rightarrow> Inl e
                | Inr d \<Rightarrow>
                    if \<not> name_listed s d
                    then Inr (ProbeError (ApiError 400
                           (js ''Configured model '' @ quoted_model s @ js '' not found in Ollama'')))
                    else Inr (ProbeSuccess (js ''Connection test successful''))))
      else if provider s = Some (js ''openai_compatible'') then
        if \<not> truthy (apiUrl s)
        then Inr (ProbeError (ApiError 400 (js ''OpenAI Compatible API URL not configured'')))
        else if \<not> truthy (apiKey s)
        then Inr (ProbeError (ApiError 400 (js ''OpenAI Compatible API key not configured'')))
        else
          (case fetch (compatible_probe_request s) of
             Rejects e \<Rightarrow> Inl e
           | Responds r \<Rightarrow>
               if \<not> ok r
               then Inr (ProbeError (ApiError 500 (js ''OpenAI API error: '' @ decimal (status r))))
               else
                 (case json r of
                    Inl e \<Rightarrow> Inl e
                  | Inr d \<Rightarrow>
                      (case id_listed s d of
                         Inl e \<Rightarrow> Inl e
                       | Inr modelExists \<Rightarrow>
                           if \<not> modelExists
                           then Inr (ProbeError (ApiError 400
                                  (js ''Configured model '' @ quoted_model s
                                   @ js '' not found in OpenAI Compatible API'')))
                           else Inr (ProbeSuccess (js ''Connection test successful'')))))
      else Inr (ProbeSuccess (js ''Connection test successful'')))"

definition testAIConnection ::
  "settings option \<Rightarrow> (request \<Rightarrow> fetch_outcome) \<Rightarrow> js_error + probe_result" where
  \<comment> \<open>The first argument is what \<^verbatim>\<open>await AISettings.findOne()\<close> gave.  \<open>Inl\<close> would be
      an exception that reaches the caller.\<close>
  "testAIConnection found fetch =
     (case found of
        None \<Rightarrow> Inr (ProbeError (ApiError 400 (js ''AI is not enabled'')))
      | Some s \<Rightarrow>
          if \<not> enabled s then Inr (ProbeError (ApiError 400 (js ''AI is not enabled'')))
          else if \<not> truthy (provider s)
          then Inr (ProbeError (ApiError 400 (js ''No AI provider configured'')))
          else if \<not> truthy (model s)
          then Inr (ProbeError (ApiError 400 (js ''No AI model configured'')))
          else
            (case probe_try s fetch of
               Inr r \<Rightarrow> Inr r
             | Inl error \<Rightarrow>
                 Inr (ProbeError (ApiError 500
                   (js ''Connection test failed: '' @ error_message error)))))"

section \<open>Model Lister: \<^verbatim>\<open>fetchModelsForProvider\<close>\<close>

text \<open>
  The three shapes the lister returns: \<^verbatim>\<open>{ models }\<close>, \<^verbatim>\<open>{ error: { code, message } }\<close>
  and \<^verbatim>\<open>{ code, message }\<close>.

  Lines 175 and 176 of the source open \<^verbatim>\<open>try {\<close> before \<^verbatim>\<open>if (provider === "ollama") {\<close>,
  while line 188 closes a block before \<^verbatim>\<open>catch\<close> and line 191 continues with
  \<^verbatim>\<open>} else if\<close>.  The closing braces and the two branches that follow fix the reading
  taken here: one branch per provider, each with its own \<^verbatim>\<open>try\<close>/\<^verbatim>\<open>catch\<close> around
  the call.
\<close>

datatype list_result = Models "jstring list" | WrappedError api_error | PlainError api_error

definition is_chat_id :: "jstring \<Rightarrow> bool" where
  \<comment> \<open>the predicate of the filter, lines 208 to 214\<close>
  "is_chat_id i \<longleftrightarrow>
     includes_str i (js ''gpt'') \<and>
     \<not> includes_str i (js ''instruct'') \<and>
     \<not> includes_str i (js ''edit'') \<and>
     \<not> includes_str i (js ''embedding'') \<and>
     \<not> includes_str i (js ''whisper'') \<and>
     \<not> includes_str i (js ''tts'') \<and>
     \<not> includes_str i (js ''dall-e'')"

fun chat_model_ids :: "model_entry list \<Rightarrow> js_error + jstring list" where
  \<comment> \<open>\<^verbatim>\<open>.filter(...).map(model => model.id)\<close>; an entry without \<^verbatim>\<open>id\<close> makes
      \<^verbatim>\<open>model.id.includes\<close> throw\<close>
  "chat_model_ids [] = Inr []"
| "chat_model_ids (m # ms) =
     (case entry_id m of
        None \<Rightarrow> Inl (type_error (js ''includes''))
      | Some i \<Rightarrow>
          (case chat_model_ids ms of
             Inl e \<Rightarrow> Inl e
           | Inr rest \<Rightarrow> Inr (if is_chat_id i then i # rest else rest)))"

definition truthy_names :: "json_data \<Rightarrow> jstring list" where
  \<comment> \<open>\<^verbatim>\<open>data.models ? data.models.map(model => model.name).filter(name => name) : []\<close>\<close>
  "truthy_names d =
     (case models_field d of
        None \<Rightarrow> []
      | Some entries \<Rightarrow>
          concat (map (\<lambda>m. case entry_name m of
                                None \<Rightarrow> []
                              | Some name \<Rightarrow> if name = [] then [] else [name]) entries))"

definition ollama_list_request :: "provider_config \<Rightarrow> request" where
  "ollama_list_request config =
     \<lparr> req_url = interpolate (baseUrl config) @ js ''/api/tags'', req_method = Some (js ''GET''),
       req_headers = headers config, req_body = None \<rparr>"

definition openai_list_request :: "settings \<Rightarrow> request" where
  "openai_list_request s =
     \<lparr> req_url = js ''https://api.openai.com/v1/models'', req_method = None,
       req_headers = bearer_headers (apiKey s), req_body = None \<rparr>"

definition compatible_list_request :: "settings \<Rightarrow> request" where
  "compatible_list_request s =
     \<lparr> req_url = interpolate (apiUrl s), req_method = None,
       req_headers = bearer_headers (apiKey s), req_body = None \<rparr>"

definition ollama_list_try ::
  "provider_config \<Rightarrow> (request \<Rightarrow> fetch_outcome) \<Rightarrow> js_error + list_result" where
  "ollama_list_try config fetch =
     (case fetch (ollama_list_request config) of
        Rejects e \<Rightarrow> Inl e
      | Responds r \<Rightarrow>
          if \<not> ok r
          then Inr (WrappedError (ApiError 500 (js ''Ollama API error: '' @ decimal (status r))))
          else (case json r of Inl e \<Rightarrow> Inl e | Inr d \<Rightarrow> Inr (Models (truthy_names d))))"

definition openai_list_try ::
  "settings \<Rightarrow> (request \<Rightarrow> fetch_outcome) \<Rightarrow> js_error + list_result" where
  "openai_list_try s fetch =
     (case fetch (openai_list_request s) of
        Rejects e \<Rightarrow> Inl e
      | Responds r \<Rightarrow>
          if \<not> ok r
          then Inr (PlainError (ApiError 500 (js ''Failed to fetch models from OpenAI'')))
          else
            (case json r of
               Inl e \<Rightarrow> Inl e
             | Inr d \<Rightarrow>
                 (case data_field d of
                    None \<Rightarrow> Inl (type_error (js ''filter''))
                  | Some entries \<Rightarrow>
                      (case chat_model_ids entries of
                         Inl e \<Rightarrow> Inl e
                       | Inr chatModels \<Rightarrow> Inr (Models (sort chatModels))))))"

definition compatible_list_try ::
  "settings \<Rightarrow> (request \<Rightarrow> fetch_outcome) \<Rightarrow> js_error + list_result" where
  "compatible_list_try s fetch =
     (case fetch (compatible_list_request s) of
        Rejects e \<Rightarrow> Inl e
      | Responds r \<Rightarrow>
          if \<not> ok r
          then Inr (PlainError (ApiError 500
                 (js ''Failed to fetch models from OpenAI Compatible API'')))
          else (case json r of Inl e \<Rightarrow> Inl e | Inr d \<Rightarrow> Inr (Models (truthy_names d))))"

definition catch_empty :: "js_error + list_result \<Rightarrow> js_error + list_result" where
  \<comment> \<open>\<^verbatim>\<open>catch (error) { return { models: [] }; }\<close>\<close>
  "catch_empty t = (case t of Inl error \<Rightarrow> Inr (Models []) | Inr r \<Rightarrow> Inr r)"

definition fetchModelsForProvider ::
  "settings \<Rightarrow> provider_config \<Rightarrow> (request \<Rightarrow> fetch_outcome) \<Rightarrow> js_error + list_result" where
  \<comment> \<open>\<open>Inl\<close> would be an exception that reaches the caller\<close>
  "fetchModelsForProvider s config fetch =
     (if provider s = Some (js ''ollama'') then catch_empty (ollama_list_try config fetch)
      else if provider s = Some (js ''openai'') then
        if \<not> truthy (apiKey s)
        then Inr (PlainError (ApiError 400 (js ''OpenAI API key not configured'')))
        else catch_empty (openai_list_try s fetch)
      else if provider s = Some (js ''openai_compatible'') then
        if \<not> truthy (apiUrl s)
        then Inr (PlainError (ApiError 400 (js ''OpenAI Compatible API URL not configured'')))
        else if \<not> truthy (apiKey s)
        then Inr (PlainError (ApiError 400 (js ''OpenAI Compatible API key not configured'')))
        else catch_empty (compatible_list_try s fetch)
      else Inr (PlainError (ApiError 400 (js ''Unsupported provider''))))"

section \<open>Command Generator: \<^verbatim>\<open>generateCommand\<close>\<close>

text \<open>
  \<^verbatim>\<open>SYSTEM_PROMPT\<close> is read from the environment when the module loads, with the text
  of lines 7 to 25 as its default: it is a parameter.

  Both request builders read \<^verbatim>\<open>config.headers\<close>, and lines 270 and 271 pass
  \<^verbatim>\<open>systemPrompt\<close> and \<^verbatim>\<open>config\<close>, although the file declares neither name.  What
  each name is bound to is a parameter: \<open>None\<close> when the name is unbound, as in the
  file, where reading it throws a ReferenceError; \<open>Some\<close> when the surrounding
  module binds it.

  Every function returns, next to its result, the requests it has passed to
  \<^verbatim>\<open>fetch\<close>, in order.
\<close>

definition reference_error :: "jstring \<Rightarrow> js_error" where
  \<comment> \<open>the ReferenceError of reading an unbound name\<close>
  "reference_error name = Error (name @ js '' is not defined'')"

definition chat_messages :: "jstring \<Rightarrow> jstring \<Rightarrow> chat_message list" where
  "chat_messages SYSTEM_PROMPT prompt =
     [\<lparr> role = js ''system'', content = SYSTEM_PROMPT \<rparr>,
      \<lparr> role = js ''user'', content = prompt \<rparr>]"

definition double_newline :: jstring where
  "double_newline = [0x0A, 0x0A]"

definition openai_chat_request :: "header list \<Rightarrow> jstring \<Rightarrow> jstring \<Rightarrow> settings \<Rightarrow> request" where
  "openai_chat_request config_headers SYSTEM_PROMPT prompt s =
     \<lparr> req_url = js ''https://api.openai.com/v1/chat/completions'',
       req_method = Some (js ''POST''),
       req_headers = config_headers,
       req_body = Some (ChatCompletions (model s) (chat_messages SYSTEM_PROMPT prompt)
                          150 (3 / 10) [double_newline]) \<rparr>"

definition ollama_chat_request :: "header list \<Rightarrow> jstring \<Rightarrow> jstring \<Rightarrow> settings \<Rightarrow> request" where
  "ollama_chat_request config_headers SYSTEM_PROMPT prompt s =
     \<lparr> req_url = strip_trailing_slashes (or_default (apiUrl s) (js ''http://localhost:11434''))
                 @ js ''/api/chat'',
       req_method = Some (js ''POST''),
       req_headers = config_headers,
       req_body = Some (OllamaChat (model s) (chat_messages SYSTEM_PROMPT prompt)
                          False (3 / 10) 150 [double_newline]) \<rparr>"

definition generateOpenAICommand ::
  "provider_config option \<Rightarrow> jstring \<Rightarrow> jstring \<Rightarrow> settings \<Rightarrow> (request \<Rightarrow> fetch_outcome) \<Rightarrow>
   request list \<times> (js_error + jstring)" where
  "generateOpenAICommand config SYSTEM_PROMPT prompt s fetch =
     (if \<not> truthy (apiKey s) then ([], Inl (Error (js ''OpenAI API key not configured'')))
      else
        (case config of
           None \<Rightarrow> ([], Inl (reference_error (js ''config'')))
         | Some c \<Rightarrow>
             (let req = openai_chat_request (headers c) SYSTEM_PROMPT prompt s
              in ([req],
                  (case fetch req of
                     Rejects e \<Rightarrow> Inl e
                   | Responds r \<Rightarrow>
                       if \<not> ok r then
                         (let error = (case json r of
                                         Inl e \<Rightarrow> None
                                       | Inr d \<Rightarrow> error_field_message d)
                          in Inl (Error (js ''API error: ''
                                          @ or_default error (decimal (status r)))))
                       else
                         (case json r of
                            Inl e \<Rightarrow> Inl e
                          | Inr d \<Rightarrow>
                              (case choices_field d of
                                 None \<Rightarrow> Inl (type_error (js ''0''))
                               | Some [] \<Rightarrow> Inr (parseAIResponse None)
                               | Some (c # cs) \<Rightarrow>
                                   Inr (parseAIResponse (map_option trim c)))))))))"

definition generateOllamaCommand ::
  "provider_config option \<Rightarrow> jstring \<Rightarrow> jstring \<Rightarrow> settings \<Rightarrow> (request \<Rightarrow> fetch_outcome) \<Rightarrow>
   request list \<times> (js_error + jstring)" where
  "generateOllamaCommand config SYSTEM_PROMPT prompt s fetch =
     (case config of
        None \<Rightarrow> ([], Inl (reference_error (js ''config'')))
      | Some c \<Rightarrow>
          (let req = ollama_chat_request (headers c) SYSTEM_PROMPT prompt s
           in ([req],
               (case fetch req of
                  Rejects e \<Rightarrow> Inl e
                | Responds r \<Rightarrow>
                    if \<not> ok r then Inl (Error (js ''Ollama API error: '' @ decimal (status r)))
                    else
                      (case json r of
                         Inl e \<Rightarrow> Inl e
                       | Inr d \<Rightarrow>
                           Inr (parseAIResponse (map_option trim (message_content d))))))))"

datatype generate_result = Command jstring | GenerateError api_error

definition returned :: "js_error + jstring \<Rightarrow> js_error + generate_result" where
  \<comment> \<open>\<^verbatim>\<open>return { command }\<close>; an exception of the awaited call propagates\<close>
  "returned t = (case t of Inl e \<Rightarrow> Inl e | Inr command \<Rightarrow> Inr (Command command))"

text \<open>
  \<^verbatim>\<open>generateCommand\<close> declares \<^verbatim>\<open>command\<close> with \<^verbatim>\<open>let\<close> at line 258 and assigns it
  by the dispatch of lines 259 to 267; lines 269 to 271 declare \<^verbatim>\<open>command\<close> again
  with \<^verbatim>\<open>const\<close>, from a second dispatch, and line 273 returns it.  The statements
  are taken in the order written: the first dispatch runs and its exception
  propagates; otherwise the second dispatch runs, its arguments read first, and its
  command is the one returned.
\<close>

definition first_dispatch ::
  "provider_config option \<Rightarrow> jstring \<Rightarrow> jstring \<Rightarrow> settings \<Rightarrow> (request \<Rightarrow> fetch_outcome) \<Rightarrow>
   (request list \<times> (js_error + jstring)) option" where
  \<comment> \<open>lines 259 to 267; \<open>None\<close> is the last \<^verbatim>\<open>else\<close>, which returns an error object\<close>
  "first_dispatch config SYSTEM_PROMPT prompt s fetch =
     (if provider s = Some (js ''openai'')
      then Some (generateOpenAICommand config SYSTEM_PROMPT prompt s fetch)
      else if provider s = Some (js ''openai_compatible'')
      then Some (generateOllamaCommand config SYSTEM_PROMPT prompt s fetch)
      else if provider s = Some (js ''ollama'')
      then Some (generateOllamaCommand config SYSTEM_PROMPT prompt s fetch)
      else None)"

definition second_dispatch ::
  "provider_config option \<Rightarrow> jstring option \<Rightarrow> jstring \<Rightarrow> jstring \<Rightarrow> settings \<Rightarrow>
   (request \<Rightarrow> fetch_outcome) \<Rightarrow> request list \<times> (js_error + jstring)" where
  \<comment> \<open>lines 269 to 271: the arguments \<^verbatim>\<open>prompt, settings, systemPrompt, config\<close> are
      read left to right before the call, which ignores the last two\<close>
  "second_dispatch config systemPrompt SYSTEM_PROMPT prompt s fetch =
     (case systemPrompt of
        None \<Rightarrow> ([], Inl (reference_error (js ''systemPrompt'')))
      | Some sp \<Rightarrow>
          (case config of
             None \<Rightarrow> ([], Inl (reference_error (js ''config'')))
           | Some c \<Rightarrow>
               if provider s = Some (js ''ollama'')
               then generateOllamaCommand config SYSTEM_PROMPT prompt s fetch
               else generateOpenAICommand config SYSTEM_PROMPT prompt s fetch))"

definition generateCommand ::
  "settings option \<Rightarrow> provider_config option \<Rightarrow> jstring option \<Rightarrow> jstring \<Rightarrow> jstring \<Rightarrow>
   (request \<Rightarrow> fetch_outcome) \<Rightarrow> request list \<times> (js_error + generate_result)" where
  \<comment> \<open>The first argument is what \<^verbatim>\<open>await AISettings.findOne()\<close> gave.\<close>
  "generateCommand found config systemPrompt SYSTEM_PROMPT prompt fetch =
     (case found of
        None \<Rightarrow> ([], Inr (GenerateError (ApiError 400 (js ''AI is not enabled''))))
      | Some s \<Rightarrow>
          if \<not> enabled s
          then ([], Inr (GenerateError (ApiError 400 (js ''AI is not enabled''))))
          else if \<not> truthy (provider s) \<or> \<not> truthy (model s)
          then ([], Inr (GenerateError (ApiError 400 (js ''AI not properly configured''))))
          else
            (case first_dispatch config SYSTEM_PROMPT prompt s fetch of
               None \<Rightarrow> ([], Inr (GenerateError (ApiError 400 (js ''Unsupported AI provider''))))
             | Some (sent, Inl e) \<Rightarrow> (sent, Inl e)
             | Some (sent, Inr command) \<Rightarrow>
                 (let (sent_again, command) =
                        second_dispatch config systemPrompt SYSTEM_PROMPT prompt s fetch
                  in (sent @ sent_again, returned command))))"

section \<open>Concrete inputs\<close>

definition example_settings :: settings where
  \<comment> \<open>a hosted configuration, enabled and complete\<close>
  "example_settings =
     \<lparr> settings_id = 1, enabled = True, provider = Some (js ''openai''),
       model = Some (js ''gpt-4''), apiKey = Some (js ''sk-1''), apiUrl = None \<rparr>"


definition plain_authHeaders :: "jstring option \<Rightarrow> header list" where
  \<comment> \<open>Modelled from the spec: \<^verbatim>\<open>authHeaders\<close> is not in the source.  The spec: the
      "header set includes bearer-style auth built from the credential".\<close>
  "plain_authHeaders key = bearer_headers key"

definition plain_normalizeUrl :: "jstring option \<Rightarrow> jstring option" where
  \<comment> \<open>Modelled from the spec: \<^verbatim>\<open>normalizeUrl\<close> is not in the source.  The spec: the
      "normalized form of the configured base-url (trailing slashes stripped)".\<close>
  "plain_normalizeUrl u = map_option strip_trailing_slashes u"

definition hosted_no_key :: settings where
  \<comment> \<open>a hosted configuration without a credential\<close>
  "hosted_no_key = example_settings \<lparr> apiKey := None \<rparr>"

definition list_call_made :: "settings \<Rightarrow> bool" where
  \<comment> \<open>the configurations for which \<open>fetchModelsForProvider\<close> reaches its \<^verbatim>\<open>fetch\<close>:
      a known provider whose checks before the call pass\<close>
  "list_call_made s \<longleftrightarrow>
     provider s = Some (js ''ollama'') \<or>
     provider s = Some (js ''openai'') \<and> truthy (apiKey s) \<or>
     provider s = Some (js ''openai_compatible'') \<and> truthy (apiUrl s) \<and> truthy (apiKey s)"

definition list_request :: "settings \<Rightarrow> provider_config \<Rightarrow> request" where
  \<comment> \<open>the request of the branch the provider selects\<close>
  "list_request s config =
     (if provider s = Some (js ''ollama'') then ollama_list_request config
      else if provider s = Some (js ''openai'') then openai_list_request s
      else compatible_list_request s)"

definition refusing_fetch :: "request \<Rightarrow> fetch_outcome" where
  \<comment> \<open>a network that refuses every connection\<close>
  "refusing_fetch req = Rejects (Error (js ''connect ECONNREFUSED''))"

definition unavailable_fetch :: "request \<Rightarrow> fetch_outcome" where
  \<comment> \<open>a server that answers 503 without a JSON body\<close>
  "unavailable_fetch req =
     Responds \<lparr> status = 503, json = Inl (Error (js ''Unexpected end of JSON input'')) \<rparr>"

definition garbled_fetch :: "request \<Rightarrow> fetch_outcome" where
  \<comment> \<open>a server that answers 200 with a body that is not JSON\<close>
  "garbled_fetch req =
     Responds \<lparr> status = 200, json = Inl (Error (js ''Unexpected token < in JSON'')) \<rparr>"

definition example_config :: provider_config where
  \<comment> \<open>the hosted contract of \<open>example_settings\<close>\<close>
  "example_config =
     \<lparr> baseUrl = Some OPENAI_BASE_URL, headers = bearer_headers (Some (js ''sk-1'')),
       requiresApiKey = True, requiresApiUrl = False \<rparr>"

definition example_listing :: json_data where
  \<comment> \<open>a listing body with ids and names; none of them is "codellama"\<close>
  "example_listing =
     \<lparr> data_field = Some [ModelEntry (Some (js ''gpt-4'')) None,
                           ModelEntry (Some (js ''gpt-3.5-turbo-instruct'')) None,
                           ModelEntry (Some (js ''whisper-1'')) None,
                           ModelEntry (Some (js ''gpt-4o-mini-tts'')) None,
                           ModelEntry (Some (js ''gpt-3.5-turbo'')) None],
       models_field = Some [ModelEntry None (Some (js ''llama3'')),
                             ModelEntry None (Some (js ''mistral''))],
       choices_field = None, message_content = None, error_field_message = None \<rparr>"

definition listing_fetch :: "request \<Rightarrow> fetch_outcome" where
  \<comment> \<open>a server that answers every request with \<open>example_listing\<close>\<close>
  "listing_fetch req = Responds \<lparr> status = 200, json = Inr example_listing \<rparr>"

definition local_settings :: settings where
  \<comment> \<open>a local configuration whose model the listing lacks\<close>
  "local_settings =
     \<lparr> settings_id = 1, enabled = True, provider = Some (js ''ollama''),
       model = Some (js ''codellama''), apiKey = None, apiUrl = None \<rparr>"

definition compatible_settings :: settings where
  \<comment> \<open>a compatible configuration whose model the listing lacks\<close>
  "compatible_settings =
     \<lparr> settings_id = 1, enabled = True, provider = Some (js ''openai_compatible''),
       model = Some (js ''codellama''), apiKey = Some (js ''sk-1''),
       apiUrl = Some (js ''http://gateway:8000/v1'') \<rparr>"

definition hosted_unlisted :: settings where
  \<comment> \<open>a hosted configuration whose model the listing lacks\<close>
  "hosted_unlisted = example_settings \<lparr> model := Some (js ''codellama'') \<rparr>"

definition completions_only_fetch :: "request \<Rightarrow> fetch_outcome" where
  \<comment> \<open>an OpenAI-compatible server: it answers a request whose body has the
      chat-completions shape and answers 404 to every other request\<close>
  "completions_only_fetch req =
     (case req_body req of
        Some (ChatCompletions m msgs k t stop) \<Rightarrow>
          Responds \<lparr> status = 200,
                     json = Inr \<lparr> data_field = None, models_field = None,
                                   choices_field = Some [Some (js ''ls -la'')],
                                   message_content = None,
                                   error_field_message = None \<rparr> \<rparr>
      | _ \<Rightarrow> Responds \<lparr> status = 404, json = Inl (Error (js ''Unexpected token'')) \<rparr>)"

definition answering_fetch :: "request \<Rightarrow> fetch_outcome" where
  \<comment> \<open>a server that answers both chat shapes\<close>
  "answering_fetch req =
     Responds \<lparr> status = 200,
                json = Inr \<lparr> data_field = None, models_field = None,
                              choices_field = Some [Some (js ''ls -la'')],
                              message_content = Some (js ''df -h''),
                              error_field_message = None \<rparr> \<rparr>"

definition is_chat_completions :: "request \<Rightarrow> bool" where
  \<comment> \<open>the body carries \<^verbatim>\<open>max_tokens\<close>, \<^verbatim>\<open>temperature\<close> and \<^verbatim>\<open>stop\<close> at its top level\<close>
  "is_chat_completions req =
     (case req_body req of
        Some (ChatCompletions m msgs k t stop) \<Rightarrow> True
      | _ \<Rightarrow> False)"

definition probe_call_made :: "settings \<Rightarrow> bool" where
  \<comment> \<open>the configurations for which \<open>testAIConnection\<close> reaches its \<^verbatim>\<open>fetch\<close>\<close>
  "probe_call_made s \<longleftrightarrow>
     enabled s \<and> truthy (model s) \<and>
     (provider s = Some (js ''ollama'') \<or>
      provider s = Some (js ''openai'') \<and> truthy (apiKey s) \<or>
      provider s = Some (js ''openai_compatible'') \<and> truthy (apiUrl s) \<and> truthy (apiKey s))"

definition probe_request :: "settings \<Rightarrow> request" where
  \<comment> \<open>the request of the branch the provider selects\<close>
  "probe_request s =
     (if provider s = Some (js ''ollama'') then ollama_probe_request s
      else if provider s = Some (js ''openai'') then openai_probe_request s
      else compatible_probe_request s)"

definition trimmed :: "jstring \<Rightarrow> bool" where
  \<comment> \<open>no whitespace at either end\<close>
  "trimmed s \<longleftrightarrow> s = [] \<or> (\<not> isSpace (hd s) \<and> \<not> isSpace (last s))"

definition plain_text :: "jstring \<Rightarrow> bool" where
  \<comment> \<open>no fence and, case-insensitively, no role label anywhere\<close>
  "plain_text x \<longleftrightarrow>
     \<not> includes_str x fence \<and>
     \<not> includes_str (toLowerCase x) (js ''user:'') \<and>
     \<not> includes_str (toLowerCase x) (js ''response:'')"

definition two_plain_lines :: jstring where
  \<comment> \<open>\<^verbatim>\<open>" ls -la\ndf -h "\<close>\<close>
  "two_plain_lines = js '' ls -la'' @ [0x0A] @ js ''df -h ''"

definition echoed_turns :: jstring where
  \<comment> \<open>a fenced block of two indented \<^verbatim>\<open>User:\<close> lines\<close>
  "echoed_turns =
     fence @ [0x0A] @ js '' User: list files'' @ [0x0A] @ js '' User: show disk usage''
     @ [0x0A] @ fence"

definition empty_answer :: jstring where
  \<comment> \<open>\<^verbatim>\<open>Response: \<close> and, on the next line, an empty fenced block\<close>
  "empty_answer = js ''Response: '' @ [0x0A] @ fence @ [0x0A] @ fence"

section \<open>Properties\<close>

subsection \<open>Configuration Validator\<close>

text \<open>
  Claim C5.  For each of the three provider kinds and every stored configuration,
  the validator applied to the resolved contract returns a credential-missing error
  exactly when the contract requires a credential and the stored credential is
  \<^verbatim>\<open>null\<close> or absent.  No other field of the configuration enters the condition.  A
  stored credential is a non-empty string or \<^verbatim>\<open>null\<close>: the update operation stores
  \<^verbatim>\<open>null\<close> for an empty one and the lazily created row has none
  (\<open>updateAISettings_never_stores_empty\<close> below).
\<close>

theorem validateProviderConfig_credential_iff:
  assumes "provider s = Some (js ''openai'') \<or> provider s = Some (js ''openai_compatible'')
           \<or> provider s = Some (js ''ollama'')"
    and "apiKey s \<noteq> Some []"
  shows "\<exists>c. getProviderConfig authHeaders normalizeUrl s = Some c \<and>
          (credential_missing (validateProviderConfig s (Some c)) \<longleftrightarrow>
           requiresApiKey c \<and> apiKey s = None)"
  using assms
  by (auto simp: getProviderConfig_def validateProviderConfig_def credential_missing_def
        truthy_def js_def split: option.splits)

theorem validateProviderConfig_credential_iff_witness:
  "credential_missing (validateProviderConfig hosted_no_key
     (getProviderConfig plain_authHeaders plain_normalizeUrl hosted_no_key)) \<and>
   \<not> credential_missing (validateProviderConfig example_settings
     (getProviderConfig plain_authHeaders plain_normalizeUrl example_settings)) \<and>
   \<not> credential_missing (validateProviderConfig local_settings
     (getProviderConfig plain_authHeaders plain_normalizeUrl local_settings))"
proof -
  have 1: "credential_missing (validateProviderConfig hosted_no_key
     (getProviderConfig plain_authHeaders plain_normalizeUrl hosted_no_key))"
    using validateProviderConfig_credential_iff
            [of hosted_no_key plain_authHeaders plain_normalizeUrl]
    by (auto simp: hosted_no_key_def example_settings_def getProviderConfig_def)
  have 2: "\<not> credential_missing (validateProviderConfig example_settings
     (getProviderConfig plain_authHeaders plain_normalizeUrl example_settings))"
    using validateProviderConfig_credential_iff
            [of example_settings plain_authHeaders plain_normalizeUrl]
    by (auto simp: example_settings_def getProviderConfig_def js_def)
  have 3: "\<not> credential_missing (validateProviderConfig local_settings
     (getProviderConfig plain_authHeaders plain_normalizeUrl local_settings))"
    using validateProviderConfig_credential_iff
            [of local_settings plain_authHeaders plain_normalizeUrl]
    by (auto simp: local_settings_def getProviderConfig_def js_def)
  from 1 2 3 show ?thesis by simp
qed

subsection \<open>Partial update\<close>


lemma updateAISettings_store_created:
  "\<exists>s. fst (getOrCreateSettings store) = Some s \<and>
       fst (updateAISettings san store u) = Some (set_fields (updatePayload u) s)"
  by (cases store)
     (simp_all add: updateAISettings_def getOrCreateSettings_def AISettings_update_def Let_def)

lemma updateAISettings_never_stores_empty:
  assumes "\<forall>s. store = Some s \<longrightarrow> apiKey s \<noteq> Some []"
  shows "\<exists>s'. fst (updateAISettings san store u) = Some s' \<and> apiKey s' \<noteq> Some []"
proof -
  obtain s0 where s0: "fst (getOrCreateSettings store) = Some s0"
    and u: "fst (updateAISettings san store u) = Some (set_fields (updatePayload u) s0)"
    using updateAISettings_store_created by blast
  have k0: "apiKey s0 \<noteq> Some []"
    using assms s0 by (cases store) (auto simp: getOrCreateSettings_def Let_def)
  have "apiKey (set_fields (updatePayload u) s0) \<noteq> Some []"
    using k0 by (auto simp: set_fields_def updatePayload_def split: option.splits)
  with u show ?thesis by simp
qed



subsection \<open>Model Lister: transport failures\<close>

lemma provider_names_distinct:
  "js ''openai'' \<noteq> js ''openai_compatible''" "js ''openai'' \<noteq> js ''ollama''"
  "js ''openai_compatible'' \<noteq> js ''ollama''" "js ''ollama'' \<noteq> js ''openai''"
  "js ''ollama'' \<noteq> js ''openai_compatible''" "js ''openai_compatible'' \<noteq> js ''openai''"
  by (simp_all add: js_def)

lemma catch_empty_returns: "\<exists>r. catch_empty t = Inr r"
  by (cases t) (simp_all add: catch_empty_def)

lemma fetchModelsForProvider_returns: "\<exists>r. fetchModelsForProvider s config fetch = Inr r"
  by (simp add: fetchModelsForProvider_def catch_empty_returns)

lemma list_cases:
  assumes "list_call_made s"
  obtains
    (ollama) "provider s = Some (js ''ollama'')"
      "list_request s config = ollama_list_request config"
      "fetchModelsForProvider s config fetch = catch_empty (ollama_list_try config fetch)"
  | (openai) "provider s = Some (js ''openai'')"
      "list_request s config = openai_list_request s"
      "fetchModelsForProvider s config fetch = catch_empty (openai_list_try s fetch)"
  | (compatible) "provider s = Some (js ''openai_compatible'')"
      "list_request s config = compatible_list_request s"
      "fetchModelsForProvider s config fetch = catch_empty (compatible_list_try s fetch)"
proof -
  from assms consider
    "provider s = Some (js ''ollama'')"
    | "provider s = Some (js ''openai'')" "truthy (apiKey s)"
    | "provider s = Some (js ''openai_compatible'')" "truthy (apiUrl s)" "truthy (apiKey s)"
    unfolding list_call_made_def by blast
  then show thesis
  proof cases
    case 1
    then show ?thesis
      by (intro ollama) (simp_all add: list_request_def fetchModelsForProvider_def)
  next
    case 2
    then show ?thesis
      by (intro openai)
         (simp_all add: list_request_def fetchModelsForProvider_def provider_names_distinct)
  next
    case 3
    then show ?thesis
      by (intro compatible)
         (simp_all add: list_request_def fetchModelsForProvider_def provider_names_distinct)
  qed
qed

lemma list_rejects:
  assumes "list_call_made s" "fetch (list_request s config) = Rejects e"
  shows "fetchModelsForProvider s config fetch = Inr (Models [])"
  using assms(1)
proof (cases rule: list_cases [where config = config and fetch = fetch])
  case ollama
  with assms(2) show ?thesis by (simp add: ollama_list_try_def catch_empty_def)
next
  case openai
  with assms(2) show ?thesis by (simp add: openai_list_try_def catch_empty_def)
next
  case compatible
  with assms(2) show ?thesis by (simp add: compatible_list_try_def catch_empty_def)
qed

lemma list_body_rejects:
  assumes "list_call_made s" "fetch (list_request s config) = Responds r" "ok r" "json r = Inl e"
  shows "fetchModelsForProvider s config fetch = Inr (Models [])"
  using assms(1)
proof (cases rule: list_cases [where config = config and fetch = fetch])
  case ollama
  with assms(2-4) show ?thesis by (simp add: ollama_list_try_def catch_empty_def)
next
  case openai
  with assms(2-4) show ?thesis by (simp add: openai_list_try_def catch_empty_def)
next
  case compatible
  with assms(2-4) show ?thesis by (simp add: compatible_list_try_def catch_empty_def)
qed

lemma list_not_ok:
  assumes "list_call_made s" "fetch (list_request s config) = Responds r" "\<not> ok r"
  shows "fetchModelsForProvider s config fetch =
           Inr (if provider s = Some (js ''ollama'')
                then WrappedError (ApiError 500 (js ''Ollama API error: '' @ decimal (status r)))
                else if provider s = Some (js ''openai'')
                then PlainError (ApiError 500 (js ''Failed to fetch models from OpenAI''))
                else PlainError (ApiError 500
                       (js ''Failed to fetch models from OpenAI Compatible API'')))"
  using assms(1)
proof (cases rule: list_cases [where config = config and fetch = fetch])
  case ollama
  with assms(2-3) show ?thesis by (simp add: ollama_list_try_def catch_empty_def)
next
  case openai
  with assms(2-3) show ?thesis
    by (simp add: openai_list_try_def catch_empty_def provider_names_distinct)
next
  case compatible
  with assms(2-3) show ?thesis
    by (simp add: compatible_list_try_def catch_empty_def provider_names_distinct)
qed

text \<open>
  Claim C2, as the code has it.  The lister never throws.  For every provider whose
  call is made, a rejected \<^verbatim>\<open>fetch\<close> and a body that fails to parse both give
  \<^verbatim>\<open>{ models: [] }\<close>; a response that is not 2xx gives a structured error with code
  500, wrapped in \<^verbatim>\<open>{ error: ... }\<close> for the local provider.
\<close>

theorem fetchModelsForProvider_transport_failures:
  "(\<exists>r. fetchModelsForProvider s config fetch = Inr r) \<and>
   (list_call_made s \<and> fetch (list_request s config) = Rejects e \<longrightarrow>
      fetchModelsForProvider s config fetch = Inr (Models [])) \<and>
   (list_call_made s \<and> fetch (list_request s config) = Responds r \<and> ok r \<and> json r = Inl e \<longrightarrow>
      fetchModelsForProvider s config fetch = Inr (Models [])) \<and>
   (list_call_made s \<and> fetch (list_request s config) = Responds r \<and> \<not> ok r \<longrightarrow>
      fetchModelsForProvider s config fetch =
        Inr (if provider s = Some (js ''ollama'')
             then WrappedError (ApiError 500 (js ''Ollama API error: '' @ decimal (status r)))
             else if provider s = Some (js ''openai'')
             then PlainError (ApiError 500 (js ''Failed to fetch models from OpenAI''))
             else PlainError (ApiError 500
                    (js ''Failed to fetch models from OpenAI Compatible API''))))"
proof (intro conjI impI)
  show "\<exists>r. fetchModelsForProvider s config fetch = Inr r"
    by (rule fetchModelsForProvider_returns)
next
  assume "list_call_made s \<and> fetch (list_request s config) = Rejects e"
  then show "fetchModelsForProvider s config fetch = Inr (Models [])"
    using list_rejects by blast
next
  assume "list_call_made s \<and> fetch (list_request s config) = Responds r \<and> ok r \<and> json r = Inl e"
  then show "fetchModelsForProvider s config fetch = Inr (Models [])"
    using list_body_rejects by blast
next
  assume "list_call_made s \<and> fetch (list_request s config) = Responds r \<and> \<not> ok r"
  then have a: "list_call_made s" "fetch (list_request s config) = Responds r" "\<not> ok r"
    by simp_all
  show "fetchModelsForProvider s config fetch =
        Inr (if provider s = Some (js ''ollama'')
             then WrappedError (ApiError 500 (js ''Ollama API error: '' @ decimal (status r)))
             else if provider s = Some (js ''openai'')
             then PlainError (ApiError 500 (js ''Failed to fetch models from OpenAI''))
             else PlainError (ApiError 500
                    (js ''Failed to fetch models from OpenAI Compatible API'')))"
    by (rule list_not_ok [where fetch = fetch and s = s and config = config, OF a])
qed

lemma example_list_call: "list_call_made example_settings"
  by (simp add: list_call_made_def example_settings_def truthy_def js_def)

theorem fetchModelsForProvider_transport_failures_witness:
  "fetchModelsForProvider example_settings example_config refusing_fetch = Inr (Models []) \<and>
   fetchModelsForProvider example_settings example_config garbled_fetch = Inr (Models []) \<and>
   fetchModelsForProvider example_settings example_config unavailable_fetch =
     Inr (PlainError (ApiError 500 (js ''Failed to fetch models from OpenAI'')))"
proof -
  have p: "provider example_settings = Some (js ''openai'')"
    by (simp add: example_settings_def)
  have nok: "\<not> ok \<lparr> status = 503, json = Inl (Error (js ''Unexpected end of JSON input'')) \<rparr>"
    by (simp add: ok_def)
  have isok: "ok \<lparr> status = 200, json = Inl (Error (js ''Unexpected token < in JSON'')) \<rparr>"
    by (simp add: ok_def)
  from fetchModelsForProvider_transport_failures
         [of example_settings example_config refusing_fetch "Error (js ''connect ECONNREFUSED'')"]
  have 1: "fetchModelsForProvider example_settings example_config refusing_fetch = Inr (Models [])"
    using example_list_call by (simp add: refusing_fetch_def)
  from fetchModelsForProvider_transport_failures
         [of example_settings example_config unavailable_fetch _
             "\<lparr> status = 503, json = Inl (Error (js ''Unexpected end of JSON input'')) \<rparr>"]
  have 2: "fetchModelsForProvider example_settings example_config unavailable_fetch =
     Inr (PlainError (ApiError 500 (js ''Failed to fetch models from OpenAI'')))"
    using example_list_call nok p by (simp add: unavailable_fetch_def provider_names_distinct)
  from fetchModelsForProvider_transport_failures
         [of example_settings example_config garbled_fetch "Error (js ''Unexpected token < in JSON'')"
             "\<lparr> status = 200, json = Inl (Error (js ''Unexpected token < in JSON'')) \<rparr>"]
  have 3: "fetchModelsForProvider example_settings example_config garbled_fetch = Inr (Models [])"
    using example_list_call isok by (simp add: garbled_fetch_def)
  from 1 2 3 show ?thesis by simp
qed

text \<open>
  Claim C2 as it is written fails: for the hosted provider a 503 response is
  answered with a structured error, not with \<^verbatim>\<open>{ models: [] }\<close>.
\<close>

theorem lister_non_2xx_counterexample:
  "fetchModelsForProvider example_settings example_config unavailable_fetch \<noteq> Inr (Models [])"
  by (simp add: fetchModelsForProvider_def example_settings_def truthy_def unavailable_fetch_def
        openai_list_try_def catch_empty_def ok_def provider_names_distinct)

subsection \<open>Model Lister: the hosted filter\<close>

lemma chat_model_ids_chat:
  "chat_model_ids es = Inr ids \<Longrightarrow> \<forall>i \<in> set ids. is_chat_id i"
proof (induction es arbitrary: ids)
  case Nil
  then show ?case by simp
next
  case (Cons m ms)
  then show ?case
    by (auto split: option.splits sum.splits if_splits)
qed

lemma openai_list_try_Models:
  assumes "openai_list_try s fetch = Inr (Models ms)"
  shows "\<exists>entries ids. chat_model_ids entries = Inr ids \<and> ms = sort ids"
  using assms unfolding openai_list_try_def
  by (auto split: fetch_outcome.splits if_splits sum.splits option.splits)

lemma catch_empty_Models:
  "catch_empty t = Inr (Models ms) \<Longrightarrow> ms = [] \<or> t = Inr (Models ms)"
  by (cases t) (auto simp: catch_empty_def)

text \<open>
  Claim C4.  For the hosted provider, whenever the lister returns a list of models,
  no id in it includes "embedding", "whisper", "tts", "dall-e", "instruct" or "edit"
  (whether or not it also includes "gpt"), and the list is sorted in the
  lexicographic order of code units.
\<close>

theorem hosted_models_filtered_sorted:
  assumes "provider s = Some (js ''openai'')"
    and "fetchModelsForProvider s config fetch = Inr (Models ms)"
  shows "sorted ms \<and>
         (\<forall>m \<in> set ms.
            \<not> includes_str m (js ''embedding'') \<and> \<not> includes_str m (js ''whisper'') \<and>
            \<not> includes_str m (js ''tts'') \<and> \<not> includes_str m (js ''dall-e'') \<and>
            \<not> includes_str m (js ''instruct'') \<and> \<not> includes_str m (js ''edit''))"
proof -
  have ne: "js ''openai'' \<noteq> js ''ollama''" by (simp add: js_def)
  from assms ne have "catch_empty (openai_list_try s fetch) = Inr (Models ms)"
    by (simp add: fetchModelsForProvider_def split: if_splits)
  then consider "ms = []" | "openai_list_try s fetch = Inr (Models ms)"
    using catch_empty_Models by blast
  then show ?thesis
  proof cases
    case 1
    then show ?thesis by simp
  next
    case 2
    then obtain entries ids where ids: "chat_model_ids entries = Inr ids" and ms: "ms = sort ids"
      using openai_list_try_Models by blast
    from ids have "\<forall>i \<in> set ids. is_chat_id i" by (rule chat_model_ids_chat)
    with ms show ?thesis by (simp add: is_chat_id_def)
  qed
qed

theorem hosted_models_filtered_sorted_witness:
  "fetchModelsForProvider example_settings example_config listing_fetch =
     Inr (Models [js ''gpt-3.5-turbo'', js ''gpt-4'']) \<and>
   sorted [js ''gpt-3.5-turbo'', js ''gpt-4''] \<and>
   \<not> includes_str (js ''gpt-4'') (js ''tts'')"
proof -
  have p: "provider example_settings = Some (js ''openai'')"
    by (simp add: example_settings_def)
  have r: "fetchModelsForProvider example_settings example_config listing_fetch =
     Inr (Models [js ''gpt-3.5-turbo'', js ''gpt-4''])"
    by code_simp
  from hosted_models_filtered_sorted [OF p r] r show ?thesis by simp
qed

subsection \<open>Connectivity Prober\<close>

lemma provider_names_truthy:
  "truthy (Some (js ''openai''))" "truthy (Some (js ''ollama''))"
  "truthy (Some (js ''openai_compatible''))"
  by (simp_all add: truthy_def js_def)

lemma testAIConnection_returns: "\<exists>r. testAIConnection found fetch = Inr r"
  by (auto simp: testAIConnection_def split: option.splits sum.splits)

lemma testAIConnection_try:
  assumes "enabled s" "truthy (provider s)" "truthy (model s)"
  shows "testAIConnection (Some s) fetch =
           (case probe_try s fetch of
              Inr r \<Rightarrow> Inr r
            | Inl error \<Rightarrow> Inr (ProbeError (ApiError 500
                  (js ''Connection test failed: '' @ error_message error))))"
  using assms by (simp add: testAIConnection_def)

lemma probe_call_made_pre:
  "probe_call_made s \<Longrightarrow> enabled s \<and> truthy (provider s) \<and> truthy (model s)"
  unfolding probe_call_made_def using provider_names_truthy by auto

lemma probe_try_outcome:
  assumes "probe_call_made s" "fetch (probe_request s) = out"
  shows "probe_try s fetch =
     (case out of
        Rejects e \<Rightarrow> Inl e
      | Responds r \<Rightarrow>
          if \<not> ok r
          then Inr (ProbeError (ApiError 500
                 ((if provider s = Some (js ''ollama'') then js ''Ollama API error: ''
                   else js ''OpenAI API error: '') @ decimal (status r))))
          else (case json r of
                  Inl e \<Rightarrow> Inl e
                | Inr d \<Rightarrow>
                    if provider s = Some (js ''ollama'') then
                      (if \<not> name_listed s d
                       then Inr (ProbeError (ApiError 400
                           (js ''Configured model '' @ quoted_model s @ js '' not found in Ollama'')))
                       else Inr (ProbeSuccess (js ''Connection test successful'')))
                    else
                      (case id_listed s d of
                         Inl e \<Rightarrow> Inl e
                       | Inr modelExists \<Rightarrow>
                           if \<not> modelExists
                           then Inr (ProbeError (ApiError 400
                                  (js ''Configured model '' @ quoted_model s
                                   @ (if provider s = Some (js ''openai'')
                                      then js '' not found in your OpenAI account''
                                      else js '' not found in OpenAI Compatible API''))))
                           else Inr (ProbeSuccess (js ''Connection test successful'')))))"
proof -
  from assms(1) consider
    (ollama) "provider s = Some (js ''ollama'')"
    | (openai) "provider s = Some (js ''openai'')" "truthy (apiKey s)"
    | (compatible) "provider s = Some (js ''openai_compatible'')" "truthy (apiUrl s)" "truthy (apiKey s)"
    unfolding probe_call_made_def by blast
  then show ?thesis
  proof cases
    case ollama
    with assms(2) show ?thesis
      by (simp add: probe_try_def probe_request_def provider_names_distinct
            split: fetch_outcome.splits sum.splits)
  next
    case openai
    with assms(2) show ?thesis
      by (simp add: probe_try_def probe_request_def provider_names_distinct
            split: fetch_outcome.splits sum.splits)
  next
    case compatible
    with assms(2) show ?thesis
      by (simp add: probe_try_def probe_request_def provider_names_distinct
            split: fetch_outcome.splits sum.splits)
  qed
qed

text \<open>
  Claim C9.  The prober returns a result and never an exception, whatever the stored
  settings and whatever \<^verbatim>\<open>fetch\<close> does.  When the call is made and \<^verbatim>\<open>fetch\<close> rejects,
  or the body of a 2xx response fails to parse, or anything else is thrown inside the
  \<^verbatim>\<open>try\<close> block, the result is a structured error with code 500 whose message is
  "Connection test failed: " followed by the message of the thrown error.
\<close>

theorem testAIConnection_catches:
  "(\<exists>r. testAIConnection found fetch = Inr r) \<and>
   (probe_call_made s \<and> fetch (probe_request s) = Rejects e \<longrightarrow>
      testAIConnection (Some s) fetch =
        Inr (ProbeError (ApiError 500 (js ''Connection test failed: '' @ error_message e)))) \<and>
   (probe_call_made s \<and> fetch (probe_request s) = Responds r \<and> ok r \<and> json r = Inl e \<longrightarrow>
      testAIConnection (Some s) fetch =
        Inr (ProbeError (ApiError 500 (js ''Connection test failed: '' @ error_message e)))) \<and>
   (enabled s \<and> truthy (provider s) \<and> truthy (model s) \<and> probe_try s fetch = Inl e \<longrightarrow>
      testAIConnection (Some s) fetch =
        Inr (ProbeError (ApiError 500 (js ''Connection test failed: '' @ error_message e))))"
proof (intro conjI impI)
  show "\<exists>r. testAIConnection found fetch = Inr r"
    by (rule testAIConnection_returns)
next
  assume a: "probe_call_made s \<and> fetch (probe_request s) = Rejects e"
  then have "probe_try s fetch = Inl e"
    using probe_try_outcome [of s fetch "Rejects e"] by simp
  with a show "testAIConnection (Some s) fetch =
        Inr (ProbeError (ApiError 500 (js ''Connection test failed: '' @ error_message e)))"
    using probe_call_made_pre [of s] by (simp add: testAIConnection_try)
next
  assume a: "probe_call_made s \<and> fetch (probe_request s) = Responds r \<and> ok r \<and> json r = Inl e"
  then have "probe_try s fetch = Inl e"
    using probe_try_outcome [of s fetch "Responds r"] by simp
  with a show "testAIConnection (Some s) fetch =
        Inr (ProbeError (ApiError 500 (js ''Connection test failed: '' @ error_message e)))"
    using probe_call_made_pre [of s] by (simp add: testAIConnection_try)
next
  assume "enabled s \<and> truthy (provider s) \<and> truthy (model s) \<and> probe_try s fetch = Inl e"
  then show "testAIConnection (Some s) fetch =
        Inr (ProbeError (ApiError 500 (js ''Connection test failed: '' @ error_message e)))"
    by (simp add: testAIConnection_try)
qed

theorem testAIConnection_catches_witness:
  "testAIConnection (Some example_settings) refusing_fetch =
     Inr (ProbeError (ApiError 500 (js ''Connection test failed: connect ECONNREFUSED''))) \<and>
   testAIConnection (Some example_settings) garbled_fetch =
     Inr (ProbeError (ApiError 500 (js ''Connection test failed: Unexpected token < in JSON'')))"
proof -
  have c: "probe_call_made example_settings"
    by (simp add: probe_call_made_def example_settings_def truthy_def js_def)
  have f: "refusing_fetch (probe_request example_settings) = Rejects (Error (js ''connect ECONNREFUSED''))"
    by (simp add: refusing_fetch_def)
  have g: "garbled_fetch (probe_request example_settings) =
      Responds \<lparr> status = 200, json = Inl (Error (js ''Unexpected token < in JSON'')) \<rparr>"
    by (simp add: garbled_fetch_def)
  have isok: "ok \<lparr> status = 200, json = Inl (Error (js ''Unexpected token < in JSON'')) \<rparr>"
    by (simp add: ok_def)
  from testAIConnection_catches
         [of "Some example_settings" refusing_fetch example_settings "Error (js ''connect ECONNREFUSED'')"]
       c f
  have 1: "testAIConnection (Some example_settings) refusing_fetch =
     Inr (ProbeError (ApiError 500 (js ''Connection test failed: connect ECONNREFUSED'')))"
    by (simp add: js_def)
  from testAIConnection_catches
         [of "Some example_settings" garbled_fetch example_settings
             "Error (js ''Unexpected token < in JSON'')"
             "\<lparr> status = 200, json = Inl (Error (js ''Unexpected token < in JSON'')) \<rparr>"]
       c g isok
  have 2: "testAIConnection (Some example_settings) garbled_fetch =
     Inr (ProbeError (ApiError 500 (js ''Connection test failed: Unexpected token < in JSON'')))"
    by (simp add: js_def)
  from 1 2 show ?thesis by simp
qed

text \<open>
  Claim C8.  For each of the three provider kinds: when the probe's call is made, the
  response is 2xx, its body parses and the configured model is not in the list the
  body holds (ids for the hosted and the compatible provider, names for the local
  one, where an absent list counts as empty), the prober returns a structured error
  with code 400 whose message quotes the configured model.
\<close>

theorem testAIConnection_model_not_found:
  assumes "probe_call_made s" and "model s = Some m"
    and "fetch (probe_request s) = Responds r" and "ok r" and "json r = Inr d"
  shows
    "(provider s = Some (js ''openai'') \<and> data_field d = Some entries \<and>
      (\<forall>e \<in> set entries. entry_id e \<noteq> Some m) \<longrightarrow>
        testAIConnection (Some s) fetch =
          Inr (ProbeError (ApiError 400 (js ''Configured model '' @ [0x22] @ m @ [0x22]
                 @ js '' not found in your OpenAI account'')))) \<and>
     (provider s = Some (js ''ollama'') \<and>
      (models_field d = None \<or>
       models_field d = Some entries \<and> (\<forall>e \<in> set entries. entry_name e \<noteq> Some m)) \<longrightarrow>
        testAIConnection (Some s) fetch =
          Inr (ProbeError (ApiError 400 (js ''Configured model '' @ [0x22] @ m @ [0x22]
                 @ js '' not found in Ollama'')))) \<and>
     (provider s = Some (js ''openai_compatible'') \<and> data_field d = Some entries \<and>
      (\<forall>e \<in> set entries. entry_id e \<noteq> Some m) \<longrightarrow>
        testAIConnection (Some s) fetch =
          Inr (ProbeError (ApiError 400 (js ''Configured model '' @ [0x22] @ m @ [0x22]
                 @ js '' not found in OpenAI Compatible API''))))"
proof -
  have pre: "enabled s" "truthy (provider s)" "truthy (model s)"
    using probe_call_made_pre [OF assms(1)] by simp_all
  have q: "quoted_model s = [0x22] @ m @ [0x22]"
    using assms(2) by (simp add: quoted_model_def interpolate_def)
  note t = testAIConnection_try [OF pre, of fetch]
  note o = probe_try_outcome [where fetch = fetch, OF assms(1) assms(3)]
  show ?thesis
  proof (intro conjI impI)
    assume a: "provider s = Some (js ''openai'') \<and> data_field d = Some entries \<and>
      (\<forall>e \<in> set entries. entry_id e \<noteq> Some m)"
    then have "id_listed s d = Inr False"
      using assms(2) by (auto simp: id_listed_def)
    with a assms(4,5) q show "testAIConnection (Some s) fetch =
          Inr (ProbeError (ApiError 400 (js ''Configured model '' @ [0x22] @ m @ [0x22]
                 @ js '' not found in your OpenAI account'')))"
      by (simp add: t o provider_names_distinct)
  next
    assume a: "provider s = Some (js ''ollama'') \<and>
      (models_field d = None \<or>
       models_field d = Some entries \<and> (\<forall>e \<in> set entries. entry_name e \<noteq> Some m))"
    then have "\<not> name_listed s d"
      using assms(2) by (auto simp: name_listed_def)
    with a assms(4,5) q show "testAIConnection (Some s) fetch =
          Inr (ProbeError (ApiError 400 (js ''Configured model '' @ [0x22] @ m @ [0x22]
                 @ js '' not found in Ollama'')))"
      by (simp add: t o)
  next
    assume a: "provider s = Some (js ''openai_compatible'') \<and> data_field d = Some entries \<and>
      (\<forall>e \<in> set entries. entry_id e \<noteq> Some m)"
    then have "id_listed s d = Inr False"
      using assms(2) by (auto simp: id_listed_def)
    with a assms(4,5) q show "testAIConnection (Some s) fetch =
          Inr (ProbeError (ApiError 400 (js ''Configured model '' @ [0x22] @ m @ [0x22]
                 @ js '' not found in OpenAI Compatible API'')))"
      by (simp add: t o provider_names_distinct)
  qed
qed

lemma listing_fetch_ok:
  "listing_fetch req = Responds \<lparr> status = 200, json = Inr example_listing \<rparr>"
  "ok \<lparr> status = 200, json = Inr example_listing \<rparr>"
  "json \<lparr> status = 200, json = Inr example_listing \<rparr> = Inr example_listing"
  by (simp_all add: listing_fetch_def ok_def)

theorem testAIConnection_model_not_found_witness:
  "testAIConnection (Some hosted_unlisted) listing_fetch =
     Inr (ProbeError (ApiError 400 (js ''Configured model '' @ [0x22] @ js ''codellama'' @ [0x22]
            @ js '' not found in your OpenAI account''))) \<and>
   testAIConnection (Some local_settings) listing_fetch =
     Inr (ProbeError (ApiError 400 (js ''Configured model '' @ [0x22] @ js ''codellama'' @ [0x22]
            @ js '' not found in Ollama''))) \<and>
   testAIConnection (Some compatible_settings) listing_fetch =
     Inr (ProbeError (ApiError 400 (js ''Configured model '' @ [0x22] @ js ''codellama'' @ [0x22]
            @ js '' not found in OpenAI Compatible API'')))"
proof -
  have c: "probe_call_made hosted_unlisted" "probe_call_made local_settings"
      "probe_call_made compatible_settings"
    by (simp_all add: probe_call_made_def hosted_unlisted_def example_settings_def
          local_settings_def compatible_settings_def truthy_def js_def)
  have m: "model hosted_unlisted = Some (js ''codellama'')"
      "model local_settings = Some (js ''codellama'')"
      "model compatible_settings = Some (js ''codellama'')"
    by (simp_all add: hosted_unlisted_def example_settings_def local_settings_def
          compatible_settings_def)
  have d: "data_field example_listing =
             Some [ModelEntry (Some (js ''gpt-4'')) None,
                   ModelEntry (Some (js ''gpt-3.5-turbo-instruct'')) None,
                   ModelEntry (Some (js ''whisper-1'')) None,
                   ModelEntry (Some (js ''gpt-4o-mini-tts'')) None,
                   ModelEntry (Some (js ''gpt-3.5-turbo'')) None]"
    "models_field example_listing =
             Some [ModelEntry None (Some (js ''llama3'')),
                   ModelEntry None (Some (js ''mistral''))]"
    by (simp_all add: example_listing_def)
  have p: "provider hosted_unlisted = Some (js ''openai'')"
      "provider local_settings = Some (js ''ollama'')"
      "provider compatible_settings = Some (js ''openai_compatible'')"
    by (simp_all add: hosted_unlisted_def example_settings_def local_settings_def
          compatible_settings_def)
  have 1: "testAIConnection (Some hosted_unlisted) listing_fetch =
     Inr (ProbeError (ApiError 400 (js ''Configured model '' @ [0x22] @ js ''codellama'' @ [0x22]
            @ js '' not found in your OpenAI account'')))"
    using testAIConnection_model_not_found
            [where fetch = listing_fetch, OF c(1) m(1) listing_fetch_ok(1) listing_fetch_ok(2) listing_fetch_ok(3),
             of "[ModelEntry (Some (js ''gpt-4'')) None,
                   ModelEntry (Some (js ''gpt-3.5-turbo-instruct'')) None,
                   ModelEntry (Some (js ''whisper-1'')) None,
                   ModelEntry (Some (js ''gpt-4o-mini-tts'')) None,
                   ModelEntry (Some (js ''gpt-3.5-turbo'')) None]"]
          p(1) d(1)
    by (simp add: js_def)
  have 2: "testAIConnection (Some local_settings) listing_fetch =
     Inr (ProbeError (ApiError 400 (js ''Configured model '' @ [0x22] @ js ''codellama'' @ [0x22]
            @ js '' not found in Ollama'')))"
    using testAIConnection_model_not_found
            [where fetch = listing_fetch, OF c(2) m(2) listing_fetch_ok(1) listing_fetch_ok(2) listing_fetch_ok(3),
             of "[ModelEntry None (Some (js ''llama3'')),
                   ModelEntry None (Some (js ''mistral''))]"]
          p(2) d(2)
    by (simp add: js_def)
  have 3: "testAIConnection (Some compatible_settings) listing_fetch =
     Inr (ProbeError (ApiError 400 (js ''Configured model '' @ [0x22] @ js ''codellama'' @ [0x22]
            @ js '' not found in OpenAI Compatible API'')))"
    using testAIConnection_model_not_found
            [where fetch = listing_fetch, OF c(3) m(3) listing_fetch_ok(1) listing_fetch_ok(2) listing_fetch_ok(3),
             of "[ModelEntry (Some (js ''gpt-4'')) None,
                   ModelEntry (Some (js ''gpt-3.5-turbo-instruct'')) None,
                   ModelEntry (Some (js ''whisper-1'')) None,
                   ModelEntry (Some (js ''gpt-4o-mini-tts'')) None,
                   ModelEntry (Some (js ''gpt-3.5-turbo'')) None]"]
          p(3) d(1)
    by (simp add: js_def)
  from 1 2 3 show ?thesis by simp
qed

subsection \<open>Command Generator\<close>

lemma generateCommand_compatible:
  assumes "enabled s" "truthy (model s)" "provider s = Some (js ''openai_compatible'')"
  shows "generateCommand (Some s) config systemPrompt sp prompt fetch =
     (case generateOllamaCommand config sp prompt s fetch of
        (sent, Inl e) \<Rightarrow> (sent, Inl e)
      | (sent, Inr command) \<Rightarrow>
          (case second_dispatch config systemPrompt sp prompt s fetch of
             (sent_again, command) \<Rightarrow> (sent @ sent_again, returned command)))"
  using assms
  by (simp add: generateCommand_def first_dispatch_def provider_names_distinct
        provider_names_truthy Let_def)

lemma generateOllamaCommand_not_found:
  assumes "\<And>c :: provider_config. fetch (ollama_chat_request (headers c) sp prompt s) =
             Responds \<lparr> status = 404, json = j \<rparr>"
  shows "\<exists>e. snd (generateOllamaCommand config sp prompt s fetch) = Inl e"
    and "\<forall>req \<in> set (fst (generateOllamaCommand config sp prompt s fetch)).
           \<not> is_chat_completions req"
proof -
  have body: "\<not> is_chat_completions (ollama_chat_request hs sp prompt s)" for hs
    by (simp add: is_chat_completions_def ollama_chat_request_def)
  show "\<exists>e. snd (generateOllamaCommand config sp prompt s fetch) = Inl e"
  proof (cases config)
    case None
    then show ?thesis by (simp add: generateOllamaCommand_def)
  next
    case (Some c)
    then show ?thesis
      by (simp add: generateOllamaCommand_def Let_def assms [of c] ok_def)
  qed
  show "\<forall>req \<in> set (fst (generateOllamaCommand config sp prompt s fetch)).
           \<not> is_chat_completions req"
  proof (cases config)
    case None
    then show ?thesis by (simp add: generateOllamaCommand_def)
  next
    case (Some c)
    then show ?thesis
      by (simp add: generateOllamaCommand_def Let_def body)
  qed
qed

lemma completions_only_fetch_local:
  "completions_only_fetch (ollama_chat_request hs sp prompt s) =
     Responds \<lparr> status = 404, json = Inl (Error (js ''Unexpected token'')) \<rparr>"
  by (simp add: completions_only_fetch_def ollama_chat_request_def)

text \<open>
  Against a server that answers both shapes, and with both names bound, the
  local-shaped request is sent first, the chat-completions request second, and the
  second answer is the command returned.
\<close>

lemma generateCommand_compatible_answered:
  "generateCommand (Some compatible_settings) (Some example_config) (Some (js ''rules''))
     (js ''rules'') (js ''list files'') answering_fetch =
     ([ollama_chat_request (headers example_config) (js ''rules'') (js ''list files'')
         compatible_settings,
       openai_chat_request (headers example_config) (js ''rules'') (js ''list files'')
         compatible_settings],
      Inr (Command (js ''ls -la'')))"
  by code_simp

text \<open>
  Claim C3 fails on the code.  Take the compatible provider, configured, and a server
  that answers chat-completions requests and answers 404 to anything else.  Whatever
  \<^verbatim>\<open>config\<close> and \<^verbatim>\<open>systemPrompt\<close> are bound to, \<open>generateCommand\<close> throws and none of
  the requests it has sent has the chat-completions shape: the dispatch of line 262
  calls \<^verbatim>\<open>generateOllamaCommand\<close>, which throws on the unbound \<^verbatim>\<open>config\<close> or sends the
  local provider's body to \<^verbatim>\<open>/api/chat\<close> and throws on the 404, so the dispatch of
  lines 269 to 271, the one that chooses the chat-completions builder, is never
  reached.
\<close>

theorem generateCommand_compatible_no_completions_request:
  "(\<exists>e. snd (generateCommand (Some compatible_settings) config systemPrompt sp prompt
             completions_only_fetch) = Inl e) \<and>
   (\<forall>req \<in> set (fst (generateCommand (Some compatible_settings) config systemPrompt sp prompt
                        completions_only_fetch)).
      \<not> is_chat_completions req)"
proof -
  have pre: "enabled compatible_settings" "truthy (model compatible_settings)"
      "provider compatible_settings = Some (js ''openai_compatible'')"
    by (simp_all add: compatible_settings_def truthy_def js_def)
  obtain sent r where g: "generateOllamaCommand config sp prompt compatible_settings
      completions_only_fetch = (sent, r)"
    by (cases "generateOllamaCommand config sp prompt compatible_settings completions_only_fetch")
  have "\<exists>e. snd (generateOllamaCommand config sp prompt compatible_settings
                  completions_only_fetch) = Inl e"
    by (rule generateOllamaCommand_not_found(1)) (rule completions_only_fetch_local)
  with g obtain e where r: "r = Inl e" by auto
  have "\<forall>req \<in> set (fst (generateOllamaCommand config sp prompt compatible_settings
                  completions_only_fetch)). \<not> is_chat_completions req"
    by (rule generateOllamaCommand_not_found(2)) (rule completions_only_fetch_local)
  with g have s: "\<forall>req \<in> set sent. \<not> is_chat_completions req" by simp
  have "generateCommand (Some compatible_settings) config systemPrompt sp prompt
          completions_only_fetch = (sent, Inl e)"
    by (simp add: generateCommand_compatible [OF pre] g r)
  with s show ?thesis by simp
qed

theorem generateCommand_compatible_no_completions_request_witness:
  "generateCommand (Some compatible_settings) None None (js ''rules'') (js ''list files'')
     completions_only_fetch = ([], Inl (Error (js ''config is not defined''))) \<and>
   generateCommand (Some compatible_settings) (Some example_config) (Some (js ''rules''))
     (js ''rules'') (js ''list files'') completions_only_fetch =
     ([ollama_chat_request (headers example_config) (js ''rules'') (js ''list files'')
         compatible_settings],
      Inl (Error (js ''Ollama API error: 404''))) \<and>
   req_body (ollama_chat_request (headers example_config) (js ''rules'') (js ''list files'')
               compatible_settings)
     = Some (OllamaChat (Some (js ''codellama''))
               [\<lparr> role = js ''system'', content = js ''rules'' \<rparr>,
                \<lparr> role = js ''user'', content = js ''list files'' \<rparr>]
               False (3 / 10) 150 [[0x0A, 0x0A]])"
proof -
  have a: "generateCommand (Some compatible_settings) None None (js ''rules'') (js ''list files'')
     completions_only_fetch = ([], Inl (Error (js ''config is not defined'')))"
    by code_simp
  have b: "generateCommand (Some compatible_settings) (Some example_config) (Some (js ''rules''))
     (js ''rules'') (js ''list files'') completions_only_fetch =
     ([ollama_chat_request (headers example_config) (js ''rules'') (js ''list files'')
         compatible_settings],
      Inl (Error (js ''Ollama API error: 404'')))"
    by code_simp
  have c: "req_body (ollama_chat_request (headers example_config) (js ''rules'') (js ''list files'')
               compatible_settings)
     = Some (OllamaChat (Some (js ''codellama''))
               [\<lparr> role = js ''system'', content = js ''rules'' \<rparr>,
                \<lparr> role = js ''user'', content = js ''list files'' \<rparr>]
               False (3 / 10) 150 [[0x0A, 0x0A]])"
    by code_simp
  from generateCommand_compatible_no_completions_request
         [of None None "js ''rules''" "js ''list files''"]
       generateCommand_compatible_no_completions_request
         [of "Some example_config" "Some (js ''rules'')" "js ''rules''" "js ''list files''"]
       a b c
  show ?thesis by simp
qed

subsection \<open>Response Normalizer: whitespace\<close>

lemma last_dropWhile: "dropWhile P xs \<noteq> [] \<Longrightarrow> last (dropWhile P xs) = last xs"
  by (induction xs) (auto split: if_splits)

lemma trimmed_trim: "trimmed (trim s)"
proof -
  let ?t = "dropWhile isSpace s"
  let ?u = "dropWhile isSpace (rev ?t)"
  show ?thesis
  proof (cases "?u = []")
    case True
    then show ?thesis by (simp add: trimmed_def trim_def)
  next
    case False
    then have h: "\<not> isSpace (hd ?u)" by (rule hd_dropWhile)
    have "?t \<noteq> []"
    proof
      assume "?t = []"
      then have "?u = dropWhile isSpace (rev [])"
        by (rule arg_cong [where f = "\<lambda>t. dropWhile isSpace (rev t)"])
      with False show False by simp
    qed
    then have ht: "\<not> isSpace (hd ?t)" by (rule hd_dropWhile)
    have "last ?u = last (rev ?t)" using False by (rule last_dropWhile)
    also have "\<dots> = hd ?t" using \<open>?t \<noteq> []\<close> by (simp add: last_rev)
    finally have l: "\<not> isSpace (last ?u)" using ht by simp
    from False h l show ?thesis
      by (simp add: trimmed_def trim_def hd_rev last_rev)
  qed
qed

lemma trim_trimmed: "trimmed s \<Longrightarrow> trim s = s"
proof (cases "s = []")
  case True
  then show ?thesis by (simp add: trim_def)
next
  case False
  assume "trimmed s"
  with False have a: "\<not> isSpace (hd s)" and b: "\<not> isSpace (last s)"
    by (simp_all add: trimmed_def)
  from a False have 1: "dropWhile isSpace s = s" by (cases s) simp_all
  from b False have 2: "dropWhile isSpace (rev s) = rev s"
    by (cases "rev s") (simp_all add: last_rev [symmetric] hd_rev)
  show ?thesis by (simp add: trim_def 1 2)
qed

lemma isLineBreak_isSpace: "isLineBreak c \<Longrightarrow> isSpace c"
  by (auto simp: isLineBreak_def isSpace_def isLineTerminator_def)

lemma strip_trailing_breaks_trimmed: "trimmed s \<Longrightarrow> strip_trailing_breaks s = s"
proof (cases "s = []")
  case True
  then show ?thesis by (simp add: strip_trailing_breaks_def)
next
  case False
  assume "trimmed s"
  with False have b: "\<not> isLineBreak (last s)"
    using isLineBreak_isSpace by (auto simp: trimmed_def)
  from b False have "dropWhile isLineBreak (rev s) = rev s"
    by (cases "rev s") (simp_all add: last_rev [symmetric] hd_rev)
  then show ?thesis by (simp add: strip_trailing_breaks_def)
qed

lemma trimmed_no_command: "trimmed no_command"
  by (simp add: trimmed_def no_command_def js_def isSpace_def isWhiteSpace_def
        isLineTerminator_def)

lemma trimmed_not_generated: "trimmed not_generated"
  by (simp add: trimmed_def not_generated_def js_def isSpace_def isWhiteSpace_def
        isLineTerminator_def)

lemma trimmed_strip_trim: "trimmed (strip_trailing_breaks (trim s))"
  by (simp add: strip_trailing_breaks_trimmed trimmed_trim)

lemma trimmed_parseAIResponse: "trimmed (parseAIResponse x)"
  unfolding parseAIResponse_def Let_def
  by (simp add: trimmed_no_command trimmed_not_generated trimmed_strip_trim
        split: option.split)

text \<open>
  Claim C10.  For every input, absent input included, the normalizer's output is a
  fixed point of \<^verbatim>\<open>trim\<close>: it has no leading and no trailing whitespace.
\<close>

theorem parseAIResponse_trim_fixed: "trim (parseAIResponse x) = parseAIResponse x"
  by (rule trim_trimmed) (rule trimmed_parseAIResponse)

theorem parseAIResponse_trim_fixed_witness:
  "trim (parseAIResponse (Some echoed_turns)) = parseAIResponse (Some echoed_turns) \<and>
   trim (parseAIResponse None) = js ''echo '' @ [0x27] @ js ''No command generated'' @ [0x27]"
  using parseAIResponse_trim_fixed [of "Some echoed_turns"] parseAIResponse_trim_fixed [of None]
  by (simp add: parseAIResponse_def no_command_def)

subsection \<open>Response Normalizer: input without fences and role labels\<close>

lemma includes_str_sublist: "includes_str s sub \<longleftrightarrow> sublist sub s"
  by (induction s) (simp_all add: sublist_Cons_right)

lemma sublist_Cons_rightD: "\<not> sublist xs (y # ys) \<Longrightarrow> \<not> prefix xs (y # ys) \<and> \<not> sublist xs ys"
  by (simp add: sublist_Cons_right)

lemma strip_lang_fences_id: "\<not> sublist fence s \<Longrightarrow> strip_lang_fences s = s"
  by (induction s) (simp_all add: sublist_Cons_right)

lemma strip_fences_id: "\<not> sublist fence s \<Longrightarrow> strip_fences s = s"
  by (induction s) (simp_all add: sublist_Cons_right)

lemma fold_agree: "upperUnit a = upperUnit b \<Longrightarrow> lowerUnit a = lowerUnit b"
  unfolding upperUnit_def lowerUnit_def
  by (auto split: if_splits; unat_arith)

lemma match_literal_i_lower:
  "match_literal_i p s = Some rest \<Longrightarrow> prefix (map lowerUnit p) (map lowerUnit s)"
  by (induction p s rule: match_literal_i.induct) (auto split: if_splits dest: fold_agree)

lemma lower_Response: "map lowerUnit (js ''Response:'') = js ''response:''"
  by (simp add: js_def lowerUnit_def)

lemma response_match_label:
  "response_match s = Some cap \<Longrightarrow> sublist (js ''response:'') (toLowerCase s)"
proof (induction s)
  case Nil
  then show ?case by simp
next
  case (Cons c cs)
  show ?case
  proof (cases "match_literal_i (js ''Response:'') (c # cs)")
    case None
    with Cons.prems have "response_match cs = Some cap" by simp
    then have "sublist (js ''response:'') (toLowerCase cs)" by (rule Cons.IH)
    then show ?thesis by (simp add: toLowerCase_def sublist_Cons_right)
  next
    case (Some rest)
    then have "prefix (map lowerUnit (js ''Response:'')) (map lowerUnit (c # cs))"
      by (rule match_literal_i_lower)
    then have "prefix (js ''response:'') (toLowerCase (c # cs))"
      by (simp only: lower_Response toLowerCase_def)
    then show ?thesis by (rule prefix_imp_sublist)
  qed
qed

lemma sublist_map: "sublist xs ys \<Longrightarrow> sublist (map f xs) (map f ys)"
  unfolding sublist_def by (metis map_append)

lemma sublist_trans: "sublist xs ys \<Longrightarrow> sublist ys zs \<Longrightarrow> sublist xs zs"
  by (rule sublist_order.order.trans)

lemma sublist_toLowerCase: "sublist l x \<Longrightarrow> sublist (toLowerCase l) (toLowerCase x)"
  by (simp add: toLowerCase_def sublist_map)

lemma sublist_trim: "sublist (trim p) p"
proof -
  have "sublist (dropWhile isSpace (rev (dropWhile isSpace p))) (rev (dropWhile isSpace p))"
    by (rule sublist_dropWhile)
  then have "sublist (trim p) (dropWhile isSpace p)"
    by (simp add: trim_def sublist_rev_left)
  moreover have "sublist (dropWhile isSpace p) p" by (rule sublist_dropWhile)
  ultimately show ?thesis by (rule sublist_trans)
qed

lemma split_nl_nonempty: "split_nl s \<noteq> []"
  by (induction s) (simp_all split: list.splits)

lemma split_nl_first: "prefix (hd (split_nl s)) s"
  by (induction s) (auto split: list.splits)

lemma split_nl_lines:
  "p \<in> set (split_nl s) \<Longrightarrow> sublist p s \<and> 0x0A \<notin> set p"
proof (induction s arbitrary: p)
  case Nil
  then show ?case by simp
next
  case (Cons c cs)
  show ?case
  proof (cases "c = 0x0A")
    case True
    with Cons.prems have "p = [] \<or> p \<in> set (split_nl cs)" by simp
    then show ?thesis
    proof
      assume "p = []" then show ?thesis by simp
    next
      assume "p \<in> set (split_nl cs)"
      then have "sublist p cs \<and> 0x0A \<notin> set p" by (rule Cons.IH)
      then show ?thesis by (simp add: sublist_Cons_right)
    qed
  next
    case False
    obtain l ls where sp: "split_nl cs = l # ls"
      using split_nl_nonempty [of cs] by (cases "split_nl cs") auto
    with False Cons.prems have "p = c # l \<or> p \<in> set ls" by simp
    then show ?thesis
    proof
      assume p: "p = c # l"
      have "l \<in> set (split_nl cs)" using sp by simp
      then have l: "sublist l cs \<and> 0x0A \<notin> set l" by (rule Cons.IH)
      have "prefix l cs" using split_nl_first [of cs] sp by simp
      with p l False show ?thesis by simp
    next
      assume "p \<in> set ls"
      then have "p \<in> set (split_nl cs)" using sp by simp
      then have "sublist p cs \<and> 0x0A \<notin> set p" by (rule Cons.IH)
      then show ?thesis by (simp add: sublist_Cons_right)
    qed
  qed
qed

lemma split_nl_single: "0x0A \<notin> set s \<Longrightarrow> split_nl s = [s]"
  by (induction s) simp_all

lemma split_nl_append: "split_nl (u @ 0x0A # v) = split_nl u @ split_nl v"
proof (induction u)
  case Nil
  show ?case by simp
next
  case (Cons c u)
  obtain l ls where sp: "split_nl u = l # ls"
    using split_nl_nonempty [of u] by (cases "split_nl u") auto
  with Cons show ?case by simp
qed

lemma split_nl_covers: "c \<in> set s \<Longrightarrow> c \<noteq> 0x0A \<Longrightarrow> \<exists>p \<in> set (split_nl s). c \<in> set p"
proof (induction s)
  case Nil
  then show ?case by simp
next
  case (Cons d ds)
  obtain l ls where sp: "split_nl ds = l # ls"
    using split_nl_nonempty [of ds] by (cases "split_nl ds") auto
  show ?case
  proof (cases "c = d")
    case True
    with Cons.prems sp show ?thesis by simp
  next
    case False
    with Cons.prems have "c \<in> set ds" by simp
    then obtain p where p: "p \<in> set (split_nl ds)" "c \<in> set p"
      using Cons.IH Cons.prems(2) by blast
    show ?thesis
    proof (cases "d = 0x0A")
      case True
      with p show ?thesis by auto
    next
      case d: False
      from p sp have "p = l \<or> p \<in> set ls" by simp
      then show ?thesis
      proof
        assume "p = l"
        with p(2) d sp show ?thesis by simp
      next
        assume "p \<in> set ls"
        with p(2) d sp show ?thesis by auto
      qed
    qed
  qed
qed

lemma trim_empty: "trim p = [] \<Longrightarrow> \<forall>c \<in> set p. isSpace c"
proof -
  assume "trim p = []"
  then have a: "\<forall>c \<in> set (dropWhile isSpace p). isSpace c"
    by (simp add: trim_def)
  have "dropWhile isSpace p = []"
  proof (rule ccontr)
    assume n: "dropWhile isSpace p \<noteq> []"
    then have "\<not> isSpace (hd (dropWhile isSpace p))" by (rule hd_dropWhile)
    moreover have "hd (dropWhile isSpace p) \<in> set (dropWhile isSpace p)"
      using n by (rule hd_in_set)
    ultimately show False using a by blast
  qed
  then show ?thesis by simp
qed

lemma lines_nonempty:
  assumes "c \<in> set u" "\<not> isSpace c"
  shows "filter (\<lambda>l. l \<noteq> []) (map trim (split_nl u)) \<noteq> []"
proof -
  have "c \<noteq> 0x0A" using assms(2) by (auto simp: isSpace_def isLineTerminator_def)
  then obtain p where p: "p \<in> set (split_nl u)" "c \<in> set p"
    using split_nl_covers assms(1) by blast
  have "trim p \<noteq> []" using trim_empty [of p] p(2) assms(2) by blast
  moreover have "trim p \<in> set (map trim (split_nl u))" using p(1) by simp
  ultimately have "trim p \<in> set (filter (\<lambda>l. l \<noteq> []) (map trim (split_nl u)))" by simp
  then show ?thesis by (metis empty_iff empty_set)
qed

lemma LF_isSpace: "isSpace 0x0A"
  by (simp add: isSpace_def isLineTerminator_def)

lemma newline_inside_trim:
  assumes "0x0A \<in> set (trim x)"
  shows "\<exists>u v. x = u @ 0x0A # v \<and> (\<exists>c \<in> set u. \<not> isSpace c) \<and> (\<exists>c \<in> set v. \<not> isSpace c)"
proof -
  obtain a b where x: "x = a @ trim x @ b"
    using sublist_trim [of x] unfolding sublist_def by blast
  obtain t1 t2 where t: "trim x = t1 @ 0x0A # t2"
    using assms by (meson split_list)
  have ne: "trim x \<noteq> []" using assms by auto
  with trimmed_trim [of x] have h: "\<not> isSpace (hd (trim x))" and l: "\<not> isSpace (last (trim x))"
    by (simp_all add: trimmed_def)
  have t1: "t1 \<noteq> []"
  proof
    assume "t1 = []"
    with t have "hd (trim x) = 0x0A" by simp
    with h LF_isSpace show False by simp
  qed
  have t2: "t2 \<noteq> []"
  proof
    assume "t2 = []"
    with t have "last (trim x) = 0x0A" by simp
    with l LF_isSpace show False by simp
  qed
  from t t1 have "hd t1 = hd (trim x)" by simp
  with h t1 have c1: "\<exists>c \<in> set (a @ t1). \<not> isSpace c"
    by (metis hd_in_set Un_iff set_append)
  from t t2 have "last t2 = last (trim x)" by simp
  with l t2 have c2: "\<exists>c \<in> set (t2 @ b). \<not> isSpace c"
    by (metis last_in_set Un_iff set_append)
  have "x = (a @ t1) @ 0x0A # (t2 @ b)"
    using x t by (metis append.assoc append_Cons)
  with c1 c2 show ?thesis by blast
qed

lemma single_line_trim:
  assumes "length (filter (\<lambda>l. l \<noteq> []) (map trim (split_nl x))) \<le> 1"
  shows "0x0A \<notin> set (trim x)"
proof
  assume "0x0A \<in> set (trim x)"
  then obtain u v where x: "x = u @ 0x0A # v"
    and u: "\<exists>c \<in> set u. \<not> isSpace c" and v: "\<exists>c \<in> set v. \<not> isSpace c"
    using newline_inside_trim by blast
  have A: "filter (\<lambda>l. l \<noteq> []) (map trim (split_nl u)) \<noteq> []"
    using u lines_nonempty by blast
  have B: "filter (\<lambda>l. l \<noteq> []) (map trim (split_nl v)) \<noteq> []"
    using v lines_nonempty by blast
  have "filter (\<lambda>l. l \<noteq> []) (map trim (split_nl x)) =
        filter (\<lambda>l. l \<noteq> []) (map trim (split_nl u)) @
        filter (\<lambda>l. l \<noteq> []) (map trim (split_nl v))"
    by (simp add: x split_nl_append)
  then have "length (filter (\<lambda>l. l \<noteq> []) (map trim (split_nl x))) =
        length (filter (\<lambda>l. l \<noteq> []) (map trim (split_nl u))) +
        length (filter (\<lambda>l. l \<noteq> []) (map trim (split_nl v)))"
    by (metis length_append)
  moreover have ge: "1 \<le> length ys" if "ys \<noteq> []" for ys :: "jstring list"
    using that by (cases ys) simp_all
  moreover have "length (filter (\<lambda>l. l \<noteq> []) (map trim (split_nl u))) \<ge> 1"
    using A by (rule ge)
  moreover have "length (filter (\<lambda>l. l \<noteq> []) (map trim (split_nl v))) \<ge> 1"
    using B by (rule ge)
  ultimately show False using assms by linarith
qed

lemma plain_text_sublist: "plain_text x \<Longrightarrow> sublist y x \<Longrightarrow> plain_text y"
  unfolding plain_text_def includes_str_sublist
  using sublist_trans sublist_toLowerCase by blast

lemma plain_text_facts:
  assumes "plain_text x"
  shows "strip_fences (strip_lang_fences x) = x"
    and "response_match x = None"
    and "\<not> startsWith (toLowerCase x) (js ''user:'')"
    and "\<not> startsWith (toLowerCase x) (js ''response:'')"
    and "\<not> role_labelled x"
proof -
  from assms have f: "\<not> sublist fence x"
    and u: "\<not> sublist (js ''user:'') (toLowerCase x)"
    and r: "\<not> sublist (js ''response:'') (toLowerCase x)"
    by (simp_all add: plain_text_def includes_str_sublist)
  show "strip_fences (strip_lang_fences x) = x"
    using f by (simp add: strip_lang_fences_id strip_fences_id)
  show "response_match x = None"
    using r response_match_label [of x] by (cases "response_match x") auto
  show a: "\<not> startsWith (toLowerCase x) (js ''user:'')"
    using u by (auto simp: startsWith_def)
  show b: "\<not> startsWith (toLowerCase x) (js ''response:'')"
    using r by (auto simp: startsWith_def)
  from a b show "\<not> role_labelled x" by (simp add: role_labelled_def)
qed

lemma parseAIResponse_plain_line:
  assumes "y \<noteq> []" "trimmed y" "0x0A \<notin> set y" "plain_text y"
  shows "parseAIResponse (Some y) = y"
proof -
  have t: "trim y = y" using assms(2) by (rule trim_trimmed)
  have s: "strip_trailing_breaks y = y" using assms(2) by (rule strip_trailing_breaks_trimmed)
  have l: "split_nl y = [y]" using assms(3) by (rule split_nl_single)
  show ?thesis
    using assms(1)
    by (simp add: parseAIResponse_def plain_text_facts [OF assms(4)] l t s)
qed

lemma sublist_set: "sublist xs ys \<Longrightarrow> set xs \<subseteq> set ys"
  by (auto simp: sublist_def)

lemma parseAIResponse_plain:
  assumes "plain_text x" "x \<noteq> []"
  shows "parseAIResponse (Some x) =
     (let lines = filter (\<lambda>l. l \<noteq> []) (map trim (split_nl x))
      in if length lines > 1 then hd lines
         else if trim x = [] then no_command else trim x)"
proof -
  let ?lines = "filter (\<lambda>l. l \<noteq> []) (map trim (split_nl x))"
  have st: "strip_trailing_breaks (trim s) = trim s" for s
    by (simp add: strip_trailing_breaks_trimmed trimmed_trim)
  show ?thesis
  proof (cases "length ?lines > 1")
    case True
    then obtain l ls where ls: "?lines = l # ls" by (cases ?lines) auto
    then have "l \<in> set ?lines" by simp
    then obtain p where p: "p \<in> set (split_nl x)" "l = trim p" "l \<noteq> []" by auto
    have "sublist l x"
      using p(1,2) split_nl_lines [of p x] sublist_trim [of p] sublist_trans by blast
    then have "plain_text l" using assms(1) plain_text_sublist by blast
    then have nl: "\<not> role_labelled l" by (rule plain_text_facts)
    have tl: "trim l = l" using p(2) trimmed_trim trim_trimmed by blast
    have sl: "strip_trailing_breaks l = l"
      using p(2) trimmed_trim strip_trailing_breaks_trimmed by blast
    have f0: "find (\<lambda>l. \<not> role_labelled l) (l # ls) = Some l"
      using nl by simp
    have len: "length (l # ls) > 1" using True by (simp only: ls)
    have "(let lines = l # ls;
               cmd = (if length lines > 1 then find (\<lambda>l. \<not> role_labelled l) lines else None);
               otherwise = (if startsWith (toLowerCase x) (js ''response:'') then not_generated
                            else let out = strip_trailing_breaks (trim x)
                                 in if out = [] then no_command else out)
           in (case cmd of
                 Some l \<Rightarrow> if l \<noteq> [] then strip_trailing_breaks (trim l) else otherwise
               | None \<Rightarrow> otherwise)) = l"
      unfolding Let_def using len p(3) nl by (simp add: tl sl)
    then show ?thesis
      unfolding parseAIResponse_def
      using assms(2) True
      by (simp only: option.case plain_text_facts [OF assms(1)] if_False ls Let_def list.sel if_True)
  next
    case False
    then show ?thesis
      unfolding parseAIResponse_def Let_def
      using assms(2)
      by (simp add: plain_text_facts [OF assms(1)] st)
  qed
qed

lemma parseAIResponse_no_command: "parseAIResponse (Some no_command) = no_command"
  by code_simp

text \<open>
  Claim C7.  For every string that contains no triple-backtick fence and, read
  case-insensitively, neither "user:" nor "response:", normalizing the normalizer's
  output gives that output again.
\<close>

theorem parseAIResponse_idempotent:
  assumes "\<not> includes_str x fence"
    and "\<not> includes_str (toLowerCase x) (js ''user:'')"
    and "\<not> includes_str (toLowerCase x) (js ''response:'')"
  shows "parseAIResponse (Some (parseAIResponse (Some x))) = parseAIResponse (Some x)"
proof (cases "x = []")
  case True
  then have "parseAIResponse (Some x) = no_command" by (simp add: parseAIResponse_def)
  then show ?thesis by (simp only: parseAIResponse_no_command)
next
  case False
  have pt: "plain_text x" using assms by (simp add: plain_text_def)
  let ?lines = "filter (\<lambda>l. l \<noteq> []) (map trim (split_nl x))"
  note eq = parseAIResponse_plain [OF pt False, unfolded Let_def]
  show ?thesis
  proof (cases "length ?lines > 1")
    case True
    then obtain l ls where ls: "?lines = l # ls" by (cases ?lines) auto
    then have "l \<in> set ?lines" by simp
    then obtain p where p: "p \<in> set (split_nl x)" "l = trim p" "l \<noteq> []" by auto
    have sl: "sublist l p" using p(2) sublist_trim by simp
    have px: "sublist p x" "0x0A \<notin> set p" using split_nl_lines [OF p(1)] by simp_all
    have "sublist l x" using sl px(1) by (rule sublist_trans)
    then have 1: "plain_text l" using pt plain_text_sublist by blast
    have 2: "trimmed l" using p(2) trimmed_trim by simp
    have 3: "0x0A \<notin> set l" using sublist_set [OF sl] px(2) by blast
    have y: "parseAIResponse (Some x) = l" using True eq ls by simp
    show ?thesis
      unfolding y using p(3) 2 3 1 by (rule parseAIResponse_plain_line)
  next
    case single: False
    show ?thesis
    proof (cases "trim x = []")
      case True
      with single eq have "parseAIResponse (Some x) = no_command" by simp
      then show ?thesis by (simp add: parseAIResponse_no_command)
    next
      case ne: False
      with single eq have y: "parseAIResponse (Some x) = trim x" by simp
      have 1: "plain_text (trim x)" using pt sublist_trim plain_text_sublist by blast
      have 2: "trimmed (trim x)" by (rule trimmed_trim)
      have 3: "0x0A \<notin> set (trim x)" using single by (intro single_line_trim) simp
      show ?thesis
        unfolding y using ne 2 3 1 by (rule parseAIResponse_plain_line)
    qed
  qed
qed

theorem parseAIResponse_idempotent_witness:
  "parseAIResponse (Some two_plain_lines) = js ''ls -la'' \<and>
   parseAIResponse (Some (parseAIResponse (Some two_plain_lines))) = js ''ls -la''"
proof -
  have h: "\<not> includes_str two_plain_lines fence"
    "\<not> includes_str (toLowerCase two_plain_lines) (js ''user:'')"
    "\<not> includes_str (toLowerCase two_plain_lines) (js ''response:'')"
    by code_simp+
  have v: "parseAIResponse (Some two_plain_lines) = js ''ls -la''"
    by code_simp
  from parseAIResponse_idempotent [OF h] v show ?thesis by simp
qed

subsection \<open>Response Normalizer: multi-line and empty output\<close>

text \<open>
  Claim C1 fails on the code, in both halves, on inputs that are already trimmed as
  the two callers pass them.  A fenced completion that echoes two indented
  \<^verbatim>\<open>User:\<close> turns is returned with the line feed between them: no line qualifies in
  the step over the lines, and the last step returns the whole text.  A completion
  \<^verbatim>\<open>Response: \<close> followed by an empty fenced block is returned as the empty string:
  the captured group is one space, and that return has no placeholder fallback.
\<close>

theorem parseAIResponse_newline_and_empty:
  "parseAIResponse (Some echoed_turns)
     = js ''User: list files'' @ [0x0A] @ js '' User: show disk usage'' \<and>
   parseAIResponse (Some empty_answer) = [] \<and>
   trim echoed_turns = echoed_turns \<and> trim empty_answer = empty_answer"
  by code_simp

theorem parseAIResponse_newline_and_empty_witness:
  "0x0A \<in> set (parseAIResponse (Some echoed_turns)) \<and>
   parseAIResponse (Some empty_answer) \<noteq> no_command"
  using parseAIResponse_newline_and_empty by (simp add: no_command_def js_def)

end
